theory Spec2Isabelle
  imports Complex_Main "HOL-Library.AList" "HOL-Library.Multiset" "HOL-Library.Sublist"
    "HOL-Library.Signed_Division"
begin

section \<open>Library functions the pipeline calls\<close>

text \<open>
  The repository holds several successive versions of one program, each a \<open>package main\<close>
  of its own: \<open>main.go\<close> (six-column input, three tax fields), \<open>part_000\<close> and \<open>part_002\<close>
  (the same without trimming, rates as JSON numbers), \<open>part_001\<close> (date column, three tax
  fields), \<open>part_005\<close> (date column, one tax per jurisdiction name), \<open>part_004\<close> (the same
  with a second totals table) and \<open>part_003\<close> (a page scraper with a worker pool).
  Definitions carry the suffix of the file they embed where the files differ.

  Go strings are byte sequences; they are modelled as \<open>string\<close>, one \<open>char\<close> per byte.
\<close>

subsection \<open>strings.TrimSpace\<close>

text \<open>
  \<open>strings.TrimSpace\<close> removes every leading and trailing Unicode white space code point.
  On a UTF-8 byte string this is the removal of the encodings below: the six ASCII ones,
  U+0085, U+00A0, U+1680, U+2000 to U+200A, U+2028, U+2029, U+202F, U+205F and U+3000.
\<close>

definition spaceRunes :: "string list" where
  "spaceRunes =
     [[CHR 0x09], [CHR 0x0A], [CHR 0x0B], [CHR 0x0C], [CHR 0x0D], [CHR 0x20],
      [CHR 0xC2, CHR 0x85], [CHR 0xC2, CHR 0xA0],
      [CHR 0xE1, CHR 0x9A, CHR 0x80],
      [CHR 0xE2, CHR 0x80, CHR 0x80], [CHR 0xE2, CHR 0x80, CHR 0x81],
      [CHR 0xE2, CHR 0x80, CHR 0x82], [CHR 0xE2, CHR 0x80, CHR 0x83],
      [CHR 0xE2, CHR 0x80, CHR 0x84], [CHR 0xE2, CHR 0x80, CHR 0x85],
      [CHR 0xE2, CHR 0x80, CHR 0x86], [CHR 0xE2, CHR 0x80, CHR 0x87],
      [CHR 0xE2, CHR 0x80, CHR 0x88], [CHR 0xE2, CHR 0x80, CHR 0x89],
      [CHR 0xE2, CHR 0x80, CHR 0x8A],
      [CHR 0xE2, CHR 0x80, CHR 0xA8], [CHR 0xE2, CHR 0x80, CHR 0xA9],
      [CHR 0xE2, CHR 0x80, CHR 0xAF], [CHR 0xE2, CHR 0x81, CHR 0x9F],
      [CHR 0xE3, CHR 0x80, CHR 0x80]]"

definition leadingSpace :: "string \<Rightarrow> string option" where
  "leadingSpace s = find (\<lambda>w. prefix w s) spaceRunes"

definition trailingSpace :: "string \<Rightarrow> string option" where
  "trailingSpace s = find (\<lambda>w. suffix w s) spaceRunes"

function TrimLeft :: "string \<Rightarrow> string" where
  "TrimLeft s =
     (case leadingSpace s of
        None \<Rightarrow> s
      | Some w \<Rightarrow> TrimLeft (drop (length w) s))"
  by pat_completeness auto
termination
proof (relation "measure length", goal_cases)
  case 1
  show ?case by simp
next
  case (2 s w)
  then have "w \<in> set spaceRunes" and p: "prefix w s"
    by (auto simp: leadingSpace_def find_Some_iff)
  then have "w \<noteq> []"
    by (auto simp: spaceRunes_def)
  with p show ?case
    by (cases s) (auto simp: prefix_def)
qed

function TrimRight :: "string \<Rightarrow> string" where
  "TrimRight s =
     (case trailingSpace s of
        None \<Rightarrow> s
      | Some w \<Rightarrow> TrimRight (take (length s - length w) s))"
  by pat_completeness auto
termination
proof (relation "measure length", goal_cases)
  case 1
  show ?case by simp
next
  case (2 s w)
  then have "w \<in> set spaceRunes" and p: "suffix w s"
    by (auto simp: trailingSpace_def find_Some_iff)
  then have "w \<noteq> []"
    by (auto simp: spaceRunes_def)
  with p show ?case
    by (cases s) (auto simp: suffix_def)
qed

declare TrimLeft.simps [simp del] TrimRight.simps [simp del]

definition TrimSpace :: "string \<Rightarrow> string" where
  "TrimSpace s = TrimRight (TrimLeft s)"

text \<open>A string is trimmed when no white space code point starts or ends it.\<close>

definition trimmed :: "string \<Rightarrow> bool" where
  "trimmed s \<longleftrightarrow> leadingSpace s = None \<and> trailingSpace s = None"

subsection \<open>strings.Split on a one-byte separator\<close>

text \<open>
  \<open>strings.Split(s, "/")\<close>: the pieces between the separators, one more than there are
  separators; the empty string gives one empty piece.
\<close>

fun Split :: "string \<Rightarrow> char \<Rightarrow> string list" where
  "Split [] sep = [[]]"
| "Split (c # cs) sep =
     (if c = sep then [] # Split cs sep
      else (case Split cs sep of
              [] \<Rightarrow> [[c]]
            | p # ps \<Rightarrow> (c # p) # ps))"

subsection \<open>strconv.Atoi\<close>

text \<open>
  \<open>strconv.Atoi\<close> accepts an optional sign followed by one or more decimal digits and
  fails on anything else, and on a value outside the 64-bit \<open>int\<close> of the build target
  (\<open>GOARCH=amd64\<close> in the Dockerfile).
\<close>

definition isDigit :: "char \<Rightarrow> bool" where
  "isDigit c \<longleftrightarrow> 48 \<le> (of_char c :: int) \<and> (of_char c :: int) \<le> 57"

definition digitsVal :: "string \<Rightarrow> int" where
  "digitsVal ds = foldl (\<lambda>n ch. n * 10 + (of_char ch - 48)) 0 ds"

definition Atoi :: "string \<Rightarrow> int option" where
  "Atoi s =
     (let (neg, ds) =
            (case s of
               [] \<Rightarrow> (False, [])
             | c # r \<Rightarrow>
                 if c = CHR ''-'' then (True, r)
                 else if c = CHR ''+'' then (False, r)
                 else (False, s))
      in if ds = [] \<or> \<not> list_all isDigit ds then None
         else let n = (if neg then - digitsVal ds else digitsVal ds)
              in if - (2 ^ 63) \<le> n \<and> n < 2 ^ 63 then Some n else None)"

subsection \<open>float64\<close>

text \<open>
  IEEE arithmetic, \<open>strconv.ParseFloat\<close>, \<open>fmt.Sprintf("%.2f", x)\<close> and the Unicode case
  tables of \<open>strings.ToUpper\<close> are not part of the repository. The program is modelled
  over an arbitrary type \<open>'f\<close> of float64 values and a record of these operations, so that
  every theorem holds whatever they compute.
\<close>

record 'f lib =
  ParseFloat :: "string \<Rightarrow> 'f option"  \<comment> \<open>\<open>strconv.ParseFloat(s, 64)\<close>; \<open>None\<close> when \<open>err != nil\<close>\<close>
  fmul :: "'f \<Rightarrow> 'f \<Rightarrow> 'f"  \<comment> \<open>\<open>x * y\<close>\<close>
  fadd :: "'f \<Rightarrow> 'f \<Rightarrow> 'f"  \<comment> \<open>\<open>x + y\<close>\<close>
  fzero :: "'f"  \<comment> \<open>the zero value of float64\<close>
  is0 :: "'f \<Rightarrow> bool"  \<comment> \<open>\<open>x == 0\<close>\<close>
  flit :: "int \<Rightarrow> nat \<Rightarrow> 'f"  \<comment> \<open>the constant written \<open>m\<close> times ten to the minus \<open>e\<close>\<close>
  Sprintf2 :: "'f \<Rightarrow> string"  \<comment> \<open>\<open>fmt.Sprintf("%.2f", x)\<close>\<close>
  ToUpper :: "string \<Rightarrow> string"  \<comment> \<open>\<open>strings.ToUpper\<close>\<close>

text \<open>
  One instance, used to run the model on concrete inputs: exact decimal arithmetic on
  rationals, with no rounding, no infinity, no NaN and no negative zero. It computes what
  float64 computes wherever every value involved is a float64, no operation rounds and
  no result is a negative zero.
\<close>

definition parseDec :: "string \<Rightarrow> rat option" where
  "parseDec s =
     (let (neg, body) =
            (case s of
               [] \<Rightarrow> (False, [])
             | c # r \<Rightarrow>
                 if c = CHR ''-'' then (True, r)
                 else if c = CHR ''+'' then (False, r)
                 else (False, s));
          ip = takeWhile (\<lambda>c. c \<noteq> CHR ''.'') body;
          fp = drop 1 (dropWhile (\<lambda>c. c \<noteq> CHR ''.'') body)
      in if (ip = [] \<and> fp = []) \<or> \<not> list_all isDigit ip \<or> \<not> list_all isDigit fp
         then None
         else let v = of_int (digitsVal ip) + of_int (digitsVal fp) / 10 ^ length fp
              in Some (if neg then - v else v))"

function decimal :: "int \<Rightarrow> string" where
  "decimal n =
     (if n < 10 then [char_of (48 + n)]
      else decimal (n div 10) @ [char_of (48 + n mod 10)])"
  by pat_completeness auto
termination
  by (relation "measure nat") auto

declare decimal.simps [simp del]

definition fmt2 :: "rat \<Rightarrow> string" where
  "fmt2 x =
     (let y = \<bar>x\<bar> * 100;
          r = \<lfloor>y\<rfloor>;
          n = (if y - of_int r > 1 / 2 \<or> (y - of_int r = 1 / 2 \<and> odd r) then r + 1 else r)
      in (if x < 0 then ''-'' else []) @ decimal (n div 100) @ ''.''
           @ [char_of (48 + n mod 100 div 10), char_of (48 + n mod 10)])"

definition upperASCII :: "char \<Rightarrow> char" where
  "upperASCII c =
     (if 97 \<le> (of_char c :: int) \<and> (of_char c :: int) \<le> 122
      then char_of (of_char c - 32 :: int) else c)"

definition declib :: "rat lib" where
  "declib = \<lparr> ParseFloat = parseDec, fmul = (\<lambda>x y. x * y), fadd = (\<lambda>x y. x + y), fzero = 0,
           is0 = (\<lambda>x. x = 0), flit = (\<lambda>m e. of_int m / 10 ^ e), Sprintf2 = fmt2,
           ToUpper = map upperASCII \<rparr>"


subsection \<open>Maps\<close>

text \<open>
  A Go map is modelled as an association list with distinct keys: \<open>m[k] = v\<close> is
  \<open>AList.update\<close>, \<open>m[k]\<close> is \<open>map_of\<close> with the zero value for a missing key, \<open>len(m)\<close>
  is \<open>length\<close>. A \<open>range\<close> over a map visits the entries in an order Go leaves open: each
  function that ranges takes the order as a parameter \<open>rng\<close>, a function that permutes
  the entries, and the theorems hold for every such function.
\<close>

type_synonym ('k, 'v) gomap = "('k \<times> 'v) list"

definition index0 :: "'f lib \<Rightarrow> (string, 'f) gomap \<Rightarrow> string \<Rightarrow> 'f" where
  "index0 lib m k = (case map_of m k of None \<Rightarrow> fzero lib | Some v \<Rightarrow> v)"

definition permutes_entries :: "('a list \<Rightarrow> 'a list) \<Rightarrow> bool" where
  "permutes_entries rng \<longleftrightarrow> (\<forall>xs. mset (rng xs) = mset xs)"

section \<open>Data\<close>

text \<open>
  \<open>TaxRecord\<close>: the fields every version has, then the three tax fields of \<open>main.go\<close>,
  \<open>part_000\<close> and \<open>part_002\<close>, or the date and the tax map of \<open>part_004\<close> and \<open>part_005\<close>.
\<close>

record 'f TaxRecord =
  Client :: string
  Charge :: "'f"
  Street :: string
  City :: string
  State :: string
  Zip :: string

record 'f TaxRecord_main = "'f TaxRecord" +
  CityTax :: "'f"
  CountyTax :: "'f"
  StateTax :: "'f"

record 'f TaxRecord_p005 = "'f TaxRecord" +
  Date :: string
  Taxes :: "(string, 'f) gomap"

text \<open>
  \<open>TaxRateResponse\<close> of \<open>main.go\<close>, \<open>part_001\<close>, \<open>part_004\<close> and \<open>part_005\<close>. Its \<open>Street\<close>
  and \<open>City\<close> fields are written \<open>RespStreet\<close> and \<open>RespCity\<close> here.
\<close>

record rate_entry =
  JurisName :: string
  JurisType :: string
  JurisRate :: string

record TaxRateResponse =
  TaxRates :: "rate_entry list"
  TotalTaxRate :: string
  RespStreet :: string
  RespCity :: string
  ZipCode :: string
  GisReturnCode :: string

text \<open>
  The rate service is a parameter: a function from the query parameters of the request to
  what comes back. \<open>DoFailed\<close>: \<open>client.Do\<close> returned an error; \<open>ReadAllFailed\<close>: the
  status arrived and \<open>io.ReadAll\<close> failed; \<open>Body\<close>: the status, the body text and what
  \<open>json.Unmarshal\<close> makes of the body, an error or a value. \<open>http.NewRequest\<close> does
  not fail on the method and the address the program passes, so its error branch is left
  out.
\<close>

record query =
  q_state :: string
  q_city :: string
  q_zipcode :: string
  q_street :: string
  q_quarter :: int
  q_year :: int

datatype 'r reply =
    DoFailed string
  | ReadAllFailed int string
  | Body int string "string + 'r"

text \<open>The lines \<open>log.Printf\<close> writes, in order.\<close>

datatype 'f log_entry =
    LogRequestURL query
  | LogStatus int
  | LogRawResponse string
  | WarnAddressMismatch string string string string string string
  | WarnParseRate string string
  | LogParsedRates3 "'f" "'f" "'f"
  | LogParsedRates "(string, 'f) gomap"
  | WarnFewRates nat

text \<open>
  Errors are the values of \<open>fmt.Errorf\<close>, one constructor per message, with the values
  the message prints. The specification's names: \<open>InvalidHeader\<close> is its SchemaError,
  the four date constructors its DateFormatError, \<open>InvalidCharge\<close> its ChargeFormatError,
  \<open>UnexpectedStatus\<close> its LookupHTTPError, \<open>ParseJSONFailed\<close> its LookupParseError,
  \<open>NoStateRate\<close> and \<open>NoTaxRates\<close> its NoRatesFoundError.
\<close>

datatype lookup_error =
    FetchFailed string
  | ReadBodyFailed string
  | UnexpectedStatus int string
  | ParseJSONFailed string string
  | NoStateRate TaxRateResponse
  | NoTaxRates TaxRateResponse
  | StatusOnly int
  | DecodeFailed string
  | NoStateRateFound

datatype error =
    ReadError string
  | InvalidHeader "string list" "string list"
  | InvalidDateFormat string string
  | InvalidMonth string string
  | InvalidDay string string
  | InvalidYear string string
  | InvalidCharge string string
  | ScrapeFailed string lookup_error

section \<open>Reading the table\<close>

text \<open>
  The input of \<open>processCSV\<close> is what successive calls of \<open>reader.Read()\<close> return until
  \<open>io.EOF\<close>: a record or an error. A \<open>csv.Reader\<close> left at \<open>FieldsPerRecord = 0\<close>
  takes the field count of the first record and returns \<open>ErrFieldCount\<close> for every later
  record of another length, which \<open>Read\<close> below writes out.
\<close>

datatype csv_read = Row "string list" | Failure string

definition Read :: "nat option \<Rightarrow> csv_read \<Rightarrow> error + string list" where
  "Read fieldsPerRecord rd =
     (case rd of
        Failure e \<Rightarrow> Inl (ReadError e)
      | Row row \<Rightarrow>
          (case fieldsPerRecord of
             None \<Rightarrow> Inr row
           | Some n \<Rightarrow>
               if length row \<noteq> n then Inl (ReadError ''wrong number of fields'')
               else Inr row))"

text \<open>\<open>equal\<close>, the same in every version.\<close>

function equal_from :: "string list \<Rightarrow> string list \<Rightarrow> nat \<Rightarrow> bool" where
  "equal_from a b i =
     (if i < length a
      then (if a ! i \<noteq> b ! i then False else equal_from a b (Suc i))
      else True)"
  by pat_completeness auto
termination
  by (relation "measure (\<lambda>(a, b, i). length a - i)") auto

declare equal_from.simps [simp del]

definition equal :: "string list \<Rightarrow> string list \<Rightarrow> bool" where
  "equal a b = (if length a \<noteq> length b then False else equal_from a b 0)"

text \<open>
  The \<open>for\<close> loop of \<open>processCSV\<close>: read a row, run the body, append the record; the
  first error ends the run and no record is returned.
\<close>

fun forRows ::
  "(string list \<Rightarrow> error + 'r) \<Rightarrow> nat \<Rightarrow> csv_read list \<Rightarrow> 'r list \<Rightarrow> error + 'r list" where
  "forRows body n [] records = Inr records"
| "forRows body n (rd # rest) records =
     (case Read (Some n) rd of
        Inl e \<Rightarrow> Inl e
      | Inr row \<Rightarrow>
          (case body row of
             Inl e \<Rightarrow> Inl e
           | Inr rec \<Rightarrow> forRows body n rest (records @ [rec])))"

section \<open>The version with a date and a tax map (part\_004, part\_005)\<close>

text \<open>\<open>scrapeTaxRates\<close> of \<open>part_005\<close> (and, the same text, of \<open>part_004\<close>).\<close>

fun collectRates_p005 ::
  "'f lib \<Rightarrow> rate_entry list \<Rightarrow> 'f log_entry list \<times> (string, 'f) gomap
     \<Rightarrow> 'f log_entry list \<times> (string, 'f) gomap" where
  "collectRates_p005 lib [] acc = acc"
| "collectRates_p005 lib (rate # rest) (lg, taxRates) =
     (case ParseFloat lib (JurisRate rate) of
        None \<Rightarrow>
          collectRates_p005 lib rest
            (lg @ [WarnParseRate (JurisRate rate) (JurisName rate)], taxRates)
      | Some r \<Rightarrow>
          collectRates_p005 lib rest (lg, AList.update (JurisName rate) r taxRates))"

definition scrapeTaxRates_p005 ::
  "'f lib \<Rightarrow> (query \<Rightarrow> TaxRateResponse reply) \<Rightarrow> string \<Rightarrow> string \<Rightarrow> string \<Rightarrow> string
     \<Rightarrow> int \<Rightarrow> int \<Rightarrow> 'f log_entry list \<times> (lookup_error + (string, 'f) gomap)" where
  "scrapeTaxRates_p005 lib svc street city state zipcode quarter year =
     (let params = \<lparr> q_state = state, q_city = city, q_zipcode = zipcode, q_street = street,
                      q_quarter = quarter, q_year = year \<rparr>
      in case svc params of
           DoFailed e \<Rightarrow> ([], Inl (FetchFailed e))
         | ReadAllFailed status e \<Rightarrow>
             ([LogRequestURL params, LogStatus status], Inl (ReadBodyFailed e))
         | Body status body decoded \<Rightarrow>
             (let lg = [LogRequestURL params, LogStatus status, LogRawResponse body]
              in if status \<noteq> 200 then (lg, Inl (UnexpectedStatus status body))
                 else case decoded of
                        Inl e \<Rightarrow> (lg, Inl (ParseJSONFailed e body))
                      | Inr taxData \<Rightarrow>
                          (let (lg', taxRates) =
                                 collectRates_p005 lib (TaxRates taxData) (lg, []);
                               lg'' = lg' @ [LogParsedRates taxRates]
                           in if length taxRates = 0 then (lg'', Inl (NoTaxRates taxData))
                              else (lg'', Inr taxRates))))"

text \<open>
  The date checks of \<open>processCSV\<close>, \<open>part_005\<close> lines 165 to 180 (the same text as
  \<open>part_001\<close> lines 161 to 176 and \<open>part_004\<close> lines 249 to 264), and the quarter of the
  line after them. Go's \<open>/\<close> on \<open>int\<close> truncates towards zero.
\<close>

definition parseDate :: "string \<Rightarrow> string \<Rightarrow> error + int \<times> int \<times> int" where
  "parseDate client date =
     (let dateParts = Split date (CHR ''/'')
      in if length dateParts \<noteq> 3 then Inl (InvalidDateFormat client date)
         else case Atoi (dateParts ! 0) of
                None \<Rightarrow> Inl (InvalidMonth client date)
              | Some month \<Rightarrow>
                  if month < 1 \<or> month > 12 then Inl (InvalidMonth client date)
                  else case Atoi (dateParts ! 1) of
                         None \<Rightarrow> Inl (InvalidDay client date)
                       | Some day \<Rightarrow>
                           if day < 1 \<or> day > 31 then Inl (InvalidDay client date)
                           else case Atoi (dateParts ! 2) of
                                  None \<Rightarrow> Inl (InvalidYear client date)
                                | Some year \<Rightarrow>
                                    if year < 2000 then Inl (InvalidYear client date)
                                    else Inr (month, day, year))"

definition quarterOf :: "int \<Rightarrow> int" where
  "quarterOf month = (month - 1) sdiv 3 + 1"

text \<open>The loop of \<open>part_005\<close> lines 205 to 207, over the entries in the order \<open>kvs\<close>.\<close>

definition calcTaxes ::
  "'f lib \<Rightarrow> 'f \<Rightarrow> (string \<times> 'f) list \<Rightarrow> (string, 'f) gomap \<Rightarrow> (string, 'f) gomap" where
  "calcTaxes lib charge kvs taxes =
     fold (\<lambda>(juris, rate) t. AList.update juris (fmul lib charge rate) t) kvs taxes"

text \<open>The body of the loop of \<open>processCSV\<close>, \<open>part_005\<close> lines 161 to 209.\<close>

definition processRow_p005 ::
  "'f lib \<Rightarrow> ((string \<times> 'f) list \<Rightarrow> (string \<times> 'f) list) \<Rightarrow> (query \<Rightarrow> TaxRateResponse reply)
     \<Rightarrow> string list \<Rightarrow> error + 'f TaxRecord_p005" where
  "processRow_p005 lib rng svc row0 =
     (let row = map TrimSpace row0
      in case parseDate (row ! 0) (row ! 1) of
           Inl e \<Rightarrow> Inl e
         | Inr (month, day, year) \<Rightarrow>
             (let quarter = quarterOf month
              in case ParseFloat lib (row ! 2) of
                   None \<Rightarrow> Inl (InvalidCharge (row ! 0) (row ! 2))
                 | Some charge \<Rightarrow>
                     (let rec = \<lparr> Client = row ! 0, Charge = charge, Street = row ! 3,
                                   City = row ! 4, State = row ! 5, Zip = row ! 6,
                                   Date = row ! 1, Taxes = [] \<rparr>
                      in case snd (scrapeTaxRates_p005 lib svc (Street rec) (City rec)
                                     (State rec) (Zip rec) quarter year) of
                           Inl e \<Rightarrow> Inl (ScrapeFailed (Client rec) e)
                         | Inr taxRates \<Rightarrow>
                             Inr (rec\<lparr> Taxes :=
                                    calcTaxes lib charge (rng taxRates) (Taxes rec) \<rparr>))))"

definition expected_p005 :: "string list" where
  "expected_p005 =
     [''client'', ''date'', ''charge'', ''street address'', ''city'', ''State'', ''zip code'']"

definition processCSV_p005 ::
  "'f lib \<Rightarrow> ((string \<times> 'f) list \<Rightarrow> (string \<times> 'f) list) \<Rightarrow> (query \<Rightarrow> TaxRateResponse reply)
     \<Rightarrow> csv_read list \<Rightarrow> error + 'f TaxRecord_p005 list" where
  "processCSV_p005 lib rng svc input =
     (case input of
        [] \<Rightarrow> Inl (ReadError ''EOF'')
      | rd # rest \<Rightarrow>
          (case Read None rd of
             Inl e \<Rightarrow> Inl e
           | Inr header \<Rightarrow>
               if \<not> equal header expected_p005
               then Inl (InvalidHeader header expected_p005)
               else forRows (processRow_p005 lib rng svc) (length header) rest []))"

text \<open>\<open>getAllJurisNames\<close>, the same in \<open>part_004\<close> and \<open>part_005\<close>.\<close>

definition getAllJurisNames ::
  "((string \<times> 'f) list \<Rightarrow> (string \<times> 'f) list) \<Rightarrow> ((string \<times> bool) list \<Rightarrow> (string \<times> bool) list)
     \<Rightarrow> 'f TaxRecord_p005 list \<Rightarrow> string list" where
  "getAllJurisNames rngT rngS records =
     (let jurisSet =
            fold (\<lambda>rec js. fold (\<lambda>(juris, _) js'. AList.update juris True js')
                               (rngT (Taxes rec)) js)
              records []
      in fold (\<lambda>(juris, _) jurisNames. jurisNames @ [juris]) (rngS jurisSet) [])"

text \<open>
  What \<open>taxRatesHandler\<close> writes once \<open>processCSV\<close> has returned the records: the header
  and one row for each record (\<open>part_005\<close> lines 101 to 121, \<open>part_004\<close> lines 103 to 128).
  The request checks before it and the errors of the writer are left out.
\<close>

definition detailRows :: "'f lib \<Rightarrow> string list \<Rightarrow> 'f TaxRecord_p005 list \<Rightarrow> string list list" where
  "detailRows lib jurisNames records =
     (let headers =
            [''client'', ''date'', ''charge'', ''street address'', ''city'', ''State'',
             ''zip code''] @ jurisNames
      in headers #
         map (\<lambda>rec.
                fold (\<lambda>juris row. row @ [Sprintf2 lib (index0 lib (Taxes rec) juris)])
                  jurisNames
                  [Client rec, Date rec, Sprintf2 lib (Charge rec), Street rec, City rec,
                   State rec, Zip rec])
           records)"

definition taxRatesHandler_p005 ::
  "'f lib \<Rightarrow> ((string \<times> 'f) list \<Rightarrow> (string \<times> 'f) list) \<Rightarrow> ((string \<times> bool) list \<Rightarrow> (string \<times> bool) list)
     \<Rightarrow> 'f TaxRecord_p005 list \<Rightarrow> string list list" where
  "taxRatesHandler_p005 lib rngT rngS records =
     (let jurisNames = getAllJurisNames rngT rngS records
      in detailRows lib jurisNames records)"

text \<open>
  The totals of \<open>taxRatesHandler\<close> in \<open>part_004\<close>, lines 149 to 167, and the two tables
  the handler packs: \<open>due_by_charge.csv\<close> and \<open>due_by_jurisdiction.csv\<close>.
\<close>

definition jurisTotals ::
  "'f lib \<Rightarrow> ((string \<times> 'f) list \<Rightarrow> (string \<times> 'f) list) \<Rightarrow> 'f TaxRecord_p005 list
     \<Rightarrow> (string, 'f) gomap" where
  "jurisTotals lib rngT records =
     fold (\<lambda>rec totals.
             fold (\<lambda>(juris, tax) t. AList.update juris (fadd lib (index0 lib t juris) tax) t)
               (rngT (Taxes rec)) totals)
       records []"

definition totalRows ::
  "'f lib \<Rightarrow> ((string \<times> 'f) list \<Rightarrow> (string \<times> 'f) list) \<Rightarrow> (string, 'f) gomap
     \<Rightarrow> string list list" where
  "totalRows lib rngT totals =
     [''Jurisdiction'', ''total''] #
     map (\<lambda>(juris, total). [juris, Sprintf2 lib total]) (rngT totals)"

definition taxRatesHandler_p004 ::
  "'f lib \<Rightarrow> ((string \<times> 'f) list \<Rightarrow> (string \<times> 'f) list) \<Rightarrow> ((string \<times> bool) list \<Rightarrow> (string \<times> bool) list)
     \<Rightarrow> 'f TaxRecord_p005 list \<Rightarrow> string list list \<times> string list list" where
  "taxRatesHandler_p004 lib rngT rngS records =
     (let jurisNames = getAllJurisNames rngT rngS records
      in (detailRows lib jurisNames records,
          totalRows lib rngT (jurisTotals lib rngT records)))"

section \<open>The versions with three tax fields (main.go, part\_001)\<close>

text \<open>
  The loop of \<open>scrapeTaxRates\<close> over \<open>taxData.TaxRates\<close>, \<open>main.go\<close> lines 203 to 217 (the
  same text as \<open>part_001\<close> lines 268 to 282). The state is the log and the three rates.
\<close>

fun collectRates_main ::
  "'f lib \<Rightarrow> rate_entry list \<Rightarrow> 'f log_entry list \<times> 'f \<times> 'f \<times> 'f
     \<Rightarrow> 'f log_entry list \<times> 'f \<times> 'f \<times> 'f" where
  "collectRates_main lib [] acc = acc"
| "collectRates_main lib (rate # rest) (lg, cityRate, countyRate, stateRate) =
     (case ParseFloat lib (JurisRate rate) of
        None \<Rightarrow>
          collectRates_main lib rest
            (lg @ [WarnParseRate (JurisRate rate) (JurisType rate)],
             cityRate, countyRate, stateRate)
      | Some r \<Rightarrow>
          if JurisType rate = ''STATE''
          then collectRates_main lib rest (lg, cityRate, countyRate, r)
          else if JurisType rate = ''COUNTY''
          then collectRates_main lib rest (lg, cityRate, r, stateRate)
          else if JurisType rate = ''CITY''
          then collectRates_main lib rest (lg, r, countyRate, stateRate)
          else collectRates_main lib rest (lg, cityRate, countyRate, stateRate))"

text \<open>
  \<open>scrapeTaxRates\<close> from the request on, \<open>main.go\<close> lines 164 to 230 and \<open>part_001\<close> lines
  230 to 294: the two differ in the query parameters only.
\<close>

definition scrapeWith ::
  "'f lib \<Rightarrow> (query \<Rightarrow> TaxRateResponse reply) \<Rightarrow> query \<Rightarrow> string \<Rightarrow> string \<Rightarrow> string
     \<Rightarrow> 'f log_entry list \<times> (lookup_error + 'f \<times> 'f \<times> 'f)" where
  "scrapeWith lib svc params street city zipcode =
     (case svc params of
        DoFailed e \<Rightarrow> ([], Inl (FetchFailed e))
      | ReadAllFailed status e \<Rightarrow>
          ([LogRequestURL params, LogStatus status], Inl (ReadBodyFailed e))
      | Body status body decoded \<Rightarrow>
          (let lg = [LogRequestURL params, LogStatus status, LogRawResponse body]
           in if status \<noteq> 200 then (lg, Inl (UnexpectedStatus status body))
              else case decoded of
                     Inl e \<Rightarrow> (lg, Inl (ParseJSONFailed e body))
                   | Inr taxData \<Rightarrow>
                       (let inputStreet = ToUpper lib street;
                            inputCity = ToUpper lib city;
                            inputZip = zipcode;
                            returnedStreet = ToUpper lib (RespStreet taxData);
                            returnedCity = ToUpper lib (RespCity taxData);
                            returnedZip = ZipCode taxData;
                            lg1 = (if inputStreet \<noteq> returnedStreet \<or> inputCity \<noteq> returnedCity
                                      \<or> inputZip \<noteq> returnedZip
                                   then lg @ [WarnAddressMismatch inputStreet inputCity inputZip
                                                returnedStreet returnedCity returnedZip]
                                   else lg);
                            (lg2, cityRate, countyRate, stateRate) =
                              collectRates_main lib (TaxRates taxData)
                                (lg1, fzero lib, fzero lib, fzero lib);
                            lg3 = lg2 @ [LogParsedRates3 cityRate countyRate stateRate]
                        in if is0 lib stateRate then (lg3, Inl (NoStateRate taxData))
                           else ((if length (TaxRates taxData) < 3
                                  then lg3 @ [WarnFewRates (length (TaxRates taxData))]
                                  else lg3),
                                 Inr (cityRate, countyRate, stateRate)))))"

text \<open>
  \<open>main.go\<close> asks for quarter 1 of the current year (\<open>time.Now().Year()\<close>, the parameter
  \<open>now\<close>); \<open>part_001\<close> for the quarter and year of the row.
\<close>

definition scrapeTaxRates_main ::
  "'f lib \<Rightarrow> (query \<Rightarrow> TaxRateResponse reply) \<Rightarrow> int \<Rightarrow> string \<Rightarrow> string \<Rightarrow> string \<Rightarrow> string
     \<Rightarrow> 'f log_entry list \<times> (lookup_error + 'f \<times> 'f \<times> 'f)" where
  "scrapeTaxRates_main lib svc now street city state zipcode =
     scrapeWith lib svc
       \<lparr> q_state = state, q_city = city, q_zipcode = zipcode, q_street = street,
         q_quarter = 1, q_year = now \<rparr>
       street city zipcode"

definition scrapeTaxRates_p001 ::
  "'f lib \<Rightarrow> (query \<Rightarrow> TaxRateResponse reply) \<Rightarrow> string \<Rightarrow> string \<Rightarrow> string \<Rightarrow> string
     \<Rightarrow> int \<Rightarrow> int \<Rightarrow> 'f log_entry list \<times> (lookup_error + 'f \<times> 'f \<times> 'f)" where
  "scrapeTaxRates_p001 lib svc street city state zipcode quarter year =
     scrapeWith lib svc
       \<lparr> q_state = state, q_city = city, q_zipcode = zipcode, q_street = street,
         q_quarter = quarter, q_year = year \<rparr>
       street city zipcode"

text \<open>The body of the loop of \<open>processCSV\<close>, \<open>main.go\<close> lines 110 to 138.\<close>

definition processRow_main ::
  "'f lib \<Rightarrow> (query \<Rightarrow> TaxRateResponse reply) \<Rightarrow> int \<Rightarrow> string list
     \<Rightarrow> error + 'f TaxRecord_main" where
  "processRow_main lib svc now row0 =
     (let row = map TrimSpace row0
      in case ParseFloat lib (row ! 1) of
           None \<Rightarrow> Inl (InvalidCharge (row ! 0) (row ! 1))
         | Some charge \<Rightarrow>
             (let rec = \<lparr> Client = row ! 0, Charge = charge, Street = row ! 2,
                           City = row ! 3, State = row ! 4, Zip = row ! 5,
                           CityTax = fzero lib, CountyTax = fzero lib,
                           StateTax = fzero lib \<rparr>
              in case snd (scrapeTaxRates_main lib svc now (Street rec) (City rec)
                             (State rec) (Zip rec)) of
                   Inl e \<Rightarrow> Inl (ScrapeFailed (Client rec) e)
                 | Inr (cityRate, countyRate, stateRate) \<Rightarrow>
                     Inr (rec\<lparr> CityTax := fmul lib charge cityRate,
                              CountyTax := fmul lib charge countyRate,
                              StateTax := fmul lib charge stateRate \<rparr>)))"

definition expected_main :: "string list" where
  "expected_main =
     [''client'', ''charge'', ''street address'', ''city'', ''State'', ''zip code'']"

definition processCSV_main ::
  "'f lib \<Rightarrow> (query \<Rightarrow> TaxRateResponse reply) \<Rightarrow> int \<Rightarrow> csv_read list
     \<Rightarrow> error + 'f TaxRecord_main list" where
  "processCSV_main lib svc now input =
     (case input of
        [] \<Rightarrow> Inl (ReadError ''EOF'')
      | rd # rest \<Rightarrow>
          (case Read None rd of
             Inl e \<Rightarrow> Inl e
           | Inr header \<Rightarrow>
               if \<not> equal header expected_main
               then Inl (InvalidHeader header expected_main)
               else forRows (processRow_main lib svc now) (length header) rest []))"


text \<open>
  \<open>part_001\<close>: the three tax fields and the date. Its \<open>TaxRecord\<close> is that of \<open>main.go\<close>
  with a \<open>Date\<close> field, written \<open>Date_p001\<close> here. The body of the loop of \<open>processCSV\<close>,
  lines 157 to 204, \<open>processCSV\<close>, and the table \<open>taxRatesHandler\<close> writes, lines 118 to
  132. The expected header is the seven-column one of \<open>part_005\<close>.
\<close>

record 'f TaxRecord_p001 = "'f TaxRecord_main" +
  Date_p001 :: string

definition processRow_p001 ::
  "'f lib \<Rightarrow> (query \<Rightarrow> TaxRateResponse reply) \<Rightarrow> string list
     \<Rightarrow> error + 'f TaxRecord_p001" where
  "processRow_p001 lib svc row0 =
     (let row = map TrimSpace row0
      in case parseDate (row ! 0) (row ! 1) of
           Inl e \<Rightarrow> Inl e
         | Inr (month, day, year) \<Rightarrow>
             (let quarter = quarterOf month
              in case ParseFloat lib (row ! 2) of
                   None \<Rightarrow> Inl (InvalidCharge (row ! 0) (row ! 2))
                 | Some charge \<Rightarrow>
                     (let rec = \<lparr> Client = row ! 0, Charge = charge, Street = row ! 3,
                                   City = row ! 4, State = row ! 5, Zip = row ! 6,
                                   CityTax = fzero lib, CountyTax = fzero lib,
                                   StateTax = fzero lib, Date_p001 = row ! 1 \<rparr>
                      in case snd (scrapeTaxRates_p001 lib svc (Street rec) (City rec)
                                     (State rec) (Zip rec) quarter year) of
                           Inl e \<Rightarrow> Inl (ScrapeFailed (Client rec) e)
                         | Inr (cityRate, countyRate, stateRate) \<Rightarrow>
                             Inr (rec\<lparr> CityTax := fmul lib charge cityRate,
                                      CountyTax := fmul lib charge countyRate,
                                      StateTax := fmul lib charge stateRate \<rparr>))))"



section \<open>The first versions (part\_000, part\_002)\<close>

text \<open>
  The rate service of these versions answers with rates as JSON numbers, and the rows are
  used as read. \<open>part_002\<close> has the same \<open>processCSV\<close> and \<open>scrapeTaxRates\<close> as \<open>part_000\<close>.
\<close>

record 'f rate_p000 =
  Jurisdiction :: string
  Type :: string
  Rate :: "'f"

record 'f TaxRateResponse_p000 =
  Rates :: "'f rate_p000 list"
  TotalRate :: "'f"

fun collectRates_p000 :: "'f rate_p000 list \<Rightarrow> 'f \<times> 'f \<times> 'f \<Rightarrow> 'f \<times> 'f \<times> 'f" where
  "collectRates_p000 [] acc = acc"
| "collectRates_p000 (rate # rest) (cityRate, countyRate, stateRate) =
     (if Type rate = ''STATE''
      then collectRates_p000 rest (cityRate, countyRate, Rate rate)
      else if Type rate = ''COUNTY''
      then collectRates_p000 rest (cityRate, Rate rate, stateRate)
      else if Type rate = ''CITY''
      then collectRates_p000 rest (Rate rate, countyRate, stateRate)
      else collectRates_p000 rest (cityRate, countyRate, stateRate))"

definition scrapeTaxRates_p000 ::
  "'f lib \<Rightarrow> (query \<Rightarrow> 'f TaxRateResponse_p000 reply) \<Rightarrow> int \<Rightarrow> string \<Rightarrow> string \<Rightarrow> string
     \<Rightarrow> string \<Rightarrow> lookup_error + 'f \<times> 'f \<times> 'f" where
  "scrapeTaxRates_p000 lib svc now street city state zipcode =
     (case svc \<lparr> q_state = state, q_city = city, q_zipcode = zipcode, q_street = street,
                 q_quarter = 1, q_year = now \<rparr> of
        DoFailed e \<Rightarrow> Inl (FetchFailed e)
      | ReadAllFailed status e \<Rightarrow>
          if status \<noteq> 200 then Inl (StatusOnly status) else Inl (DecodeFailed e)
      | Body status body decoded \<Rightarrow>
          if status \<noteq> 200 then Inl (StatusOnly status)
          else case decoded of
                 Inl e \<Rightarrow> Inl (DecodeFailed e)
               | Inr taxData \<Rightarrow>
                   (let (cityRate, countyRate, stateRate) =
                          collectRates_p000 (Rates taxData) (fzero lib, fzero lib, fzero lib)
                    in if is0 lib stateRate then Inl NoStateRateFound
                       else Inr (cityRate, countyRate, stateRate)))"

text \<open>The body of the loop of \<open>processCSV\<close>, \<open>part_000\<close> lines 103 to 126.\<close>

definition processRow_p000 ::
  "'f lib \<Rightarrow> (query \<Rightarrow> 'f TaxRateResponse_p000 reply) \<Rightarrow> int \<Rightarrow> string list
     \<Rightarrow> error + 'f TaxRecord_main" where
  "processRow_p000 lib svc now row =
     (case ParseFloat lib (row ! 1) of
        None \<Rightarrow> Inl (InvalidCharge (row ! 0) (row ! 1))
      | Some charge \<Rightarrow>
          (let rec = \<lparr> Client = row ! 0, Charge = charge, Street = row ! 2,
                        City = row ! 3, State = row ! 4, Zip = row ! 5,
                        CityTax = fzero lib, CountyTax = fzero lib, StateTax = fzero lib \<rparr>
           in case scrapeTaxRates_p000 lib svc now (Street rec) (City rec) (State rec)
                     (Zip rec) of
                Inl e \<Rightarrow> Inl (ScrapeFailed (Client rec) e)
              | Inr (cityRate, countyRate, stateRate) \<Rightarrow>
                  Inr (rec\<lparr> CityTax := fmul lib charge cityRate,
                           CountyTax := fmul lib charge countyRate,
                           StateTax := fmul lib charge stateRate \<rparr>)))"

definition processCSV_p000 ::
  "'f lib \<Rightarrow> (query \<Rightarrow> 'f TaxRateResponse_p000 reply) \<Rightarrow> int \<Rightarrow> csv_read list
     \<Rightarrow> error + 'f TaxRecord_main list" where
  "processCSV_p000 lib svc now input =
     (case input of
        [] \<Rightarrow> Inl (ReadError ''EOF'')
      | rd # rest \<Rightarrow>
          (case Read None rd of
             Inl e \<Rightarrow> Inl e
           | Inr header \<Rightarrow>
               if \<not> equal header expected_main
               then Inl (InvalidHeader header expected_main)
               else forRows (processRow_p000 lib svc now) (length header) rest []))"

section \<open>The page scraper (part\_003)\<close>



section \<open>Concrete inputs\<close>

text \<open>
  A rate service that answers every request with status 200 and the given response, and
  the response of the specification's first scenario.
\<close>

definition serve :: "'r \<Rightarrow> query \<Rightarrow> 'r reply" where
  "serve r q = Body 200 [] (Inr r)"

definition entry :: "string \<Rightarrow> string \<Rightarrow> string \<Rightarrow> rate_entry" where
  "entry n t r = \<lparr> JurisName = n, JurisType = t, JurisRate = r \<rparr>"

definition response :: "rate_entry list \<Rightarrow> TaxRateResponse" where
  "response es =
     \<lparr> TaxRates = es, TotalTaxRate = [], RespStreet = ''123 MAIN ST'', RespCity = ''AUSTIN'',
       ZipCode = ''78701'', GisReturnCode = ''P'' \<rparr>"

definition austin :: TaxRateResponse where
  "austin =
     response [entry ''TEXAS'' ''STATE'' ''0.0625'', entry ''TRAVIS'' ''COUNTY'' ''0.0050'',
               entry ''AUSTIN'' ''CITY'' ''0.0200'']"

section \<open>Sample records\<close>

definition john :: "rat TaxRecord_p005" where
  "john = \<lparr> Client = ''John'', Charge = 100, Street = ''123 Main St'', City = ''Austin'',
            State = ''TX'', Zip = ''78701'', Date = ''02/22/2025'',
            Taxes = [(''TEXAS'', 25 / 4), (''TRAVIS'', 1 / 2), (''AUSTIN'', 2)] \<rparr>"

definition mary :: "rat TaxRecord_p005" where
  "mary = \<lparr> Client = ''Mary'', Charge = 200, Street = ''1 Elm St'', City = ''Dallas'',
            State = ''TX'', Zip = ''75201'', Date = ''05/01/2025'',
            Taxes = [(''DALLAS'', 2), (''TEXAS'', 25 / 2)] \<rparr>"

text \<open>Rows as the reader returns them, and a response of the first versions.\<close>

definition john_row :: "string list" where
  "john_row = [''John'', ''02/22/2025'', ''100.00'', ''123 Main St'', ''Austin'', ''TX'', ''78701'']"


definition bob_row :: "string list" where
  "bob_row = [''Bob'', ''-5'', ''123 Main St'', ''Austin'', ''TX'', ''78701'']"

definition spaced_row :: "string list" where
  "spaced_row = ['' John '', ''100.00'', ''123 Main St '', ''Austin'', ''TX'', ''78701'']"

definition spaced_dated_row :: "string list" where
  "spaced_dated_row =
     ['' John '', ''02/30/2025 '', '' 100.00'', ''123 Main St '', ''Austin'', ''TX'', ''78701'']"

definition abc_row :: "string list" where
  "abc_row = [''Bob'', ''abc'', ''123 Main St'', ''Austin'', ''TX'', ''78701'']"




definition plain_row :: "string list" where
  "plain_row = [''John'', ''100.00'', ''123 Main St'', ''Austin'', ''TX'', ''78701'']"


definition sept_row :: "string list" where
  "sept_row = [''Sue'', ''09/15/2025'', ''80.00'', ''5 Pine Rd'', ''Austin'', ''TX'', ''78701'']"

text \<open>A rate service that answers the requests for one quarter only.\<close>

definition serve_quarter :: "int \<Rightarrow> TaxRateResponse \<Rightarrow> query \<Rightarrow> TaxRateResponse reply" where
  "serve_quarter q r params =
     (if q_quarter params = q then Body 200 [] (Inr r) else DoFailed ''no such quarter'')"

definition texas_p000 :: "rat TaxRateResponse_p000" where
  "texas_p000 =
     \<lparr> Rates = [\<lparr> Jurisdiction = ''TEXAS'', Type = ''STATE'', Rate = 1 / 16 \<rparr>],
       TotalRate = 1 / 16 \<rparr>"

section \<open>Notions of the specification\<close>




definition is_date_error :: "string \<Rightarrow> string \<Rightarrow> error \<Rightarrow> bool" where
  "is_date_error client date e =
     (e = InvalidDateFormat client date \<or> e = InvalidMonth client date \<or>
      e = InvalidDay client date \<or> e = InvalidYear client date)"







text \<open>
  The total of the specification for a jurisdiction, in its words: the sum, over the
  records in their order and starting from zero, of the record's tax for the
  jurisdiction, where a record without the jurisdiction adds nothing.
\<close>

definition total_spec :: "'f lib \<Rightarrow> string \<Rightarrow> 'f TaxRecord_p005 list \<Rightarrow> 'f" where
  "total_spec lib j records =
     foldl (\<lambda>acc rec. case map_of (Taxes rec) j of None \<Rightarrow> acc | Some tax \<Rightarrow> fadd lib acc tax)
       (fzero lib) records"

section \<open>Header validation\<close>

lemma equal_from_iff:
  "equal_from a b i \<longleftrightarrow> (\<forall>j. i \<le> j \<and> j < length a \<longrightarrow> a ! j = b ! j)"
proof (induction a b i rule: equal_from.induct)
  case (1 a b i)
  show ?case
  proof (cases "i < length a")
    case False
    then show ?thesis by (subst equal_from.simps) auto
  next
    case True
    show ?thesis
    proof (cases "a ! i = b ! i")
      case False
      with True show ?thesis by (subst equal_from.simps) auto
    next
      case eq: True
      have "equal_from a b i = equal_from a b (Suc i)"
        using True eq by (subst equal_from.simps) simp
      also have "\<dots> \<longleftrightarrow> (\<forall>j. Suc i \<le> j \<and> j < length a \<longrightarrow> a ! j = b ! j)"
        using "1.IH" True eq by simp
      also have "\<dots> \<longleftrightarrow> (\<forall>j. i \<le> j \<and> j < length a \<longrightarrow> a ! j = b ! j)"
        using eq by (metis Suc_leI le_neq_implies_less Suc_leD)
      finally show ?thesis .
    qed
  qed
qed

lemma equal_iff: "equal a b \<longleftrightarrow> a = b"
  by (auto simp: equal_def equal_from_iff list_eq_iff_nth_eq)


text \<open>
  Claim C5. \<open>equal\<close> holds exactly when the header row and the expected schema are the same
  list: same length, same strings, same order. \<open>processCSV\<close> goes on to the data rows only
  then; any other header, whatever rows follow it, ends the run with the error that
  carries the received and the expected columns. This holds for the six-column schema of
  \<open>main.go\<close> and for the seven-column schema of \<open>part_005\<close>.
\<close>

theorem header_exact:
  "(equal header expected_main \<longleftrightarrow> header = expected_main) \<and>
   (header \<noteq> expected_main \<longrightarrow>
      processCSV_main lib svc now (Row header # rest)
        = Inl (InvalidHeader header expected_main)) \<and>
   (header = expected_main \<longrightarrow>
      processCSV_main lib svc now (Row header # rest)
        = forRows (processRow_main lib svc now) 6 rest []) \<and>
   (header \<noteq> expected_p005 \<longrightarrow>
      processCSV_p005 lib' rng svc' (Row header # rest)
        = Inl (InvalidHeader header expected_p005)) \<and>
   (header = expected_p005 \<longrightarrow>
      processCSV_p005 lib' rng svc' (Row header # rest)
        = forRows (processRow_p005 lib' rng svc') 7 rest [])"
  by (auto simp: processCSV_main_def processCSV_p005_def Read_def equal_iff
      expected_main_def expected_p005_def eval_nat_numeral)

theorem header_exact_witness:
  "processCSV_main declib (serve austin) 2025
     [Row [''charge'', ''client'', ''street address'', ''city'', ''State'', ''zip code''],
      Row [''100.00'', ''John'', ''123 Main St'', ''Austin'', ''TX'', ''78701'']]
   = Inl (InvalidHeader
           [''charge'', ''client'', ''street address'', ''city'', ''State'', ''zip code'']
           [''client'', ''charge'', ''street address'', ''city'', ''State'', ''zip code'']) \<and>
   processCSV_p005 declib id (serve austin)
     [Row [''charge'', ''client'', ''street address'', ''city'', ''State'', ''zip code''],
      Row [''100.00'', ''John'', ''123 Main St'', ''Austin'', ''TX'', ''78701'']]
   = Inl (InvalidHeader
           [''charge'', ''client'', ''street address'', ''city'', ''State'', ''zip code'']
           [''client'', ''date'', ''charge'', ''street address'', ''city'', ''State'', ''zip code'']) \<and>
   processCSV_main declib (serve austin) 2025 [Row expected_main, Row plain_row]
   = Inr [\<lparr> Client = ''John'', Charge = 100, Street = ''123 Main St'', City = ''Austin'',
            State = ''TX'', Zip = ''78701'', CityTax = 2, CountyTax = 1 / 2,
            StateTax = 25 / 4 \<rparr>]"
proof -
  have ok: "forRows (processRow_main declib (serve austin) 2025) 6 [Row plain_row] []
              = Inr [\<lparr> Client = ''John'', Charge = 100, Street = ''123 Main St'',
                       City = ''Austin'', State = ''TX'', Zip = ''78701'', CityTax = 2,
                       CountyTax = 1 / 2, StateTax = 25 / 4 \<rparr>]"
    by code_simp
  show ?thesis
    using header_exact [of "[''charge'', ''client'', ''street address'', ''city'', ''State'', ''zip code'']"
        declib "serve austin" 2025
        "[Row [''100.00'', ''John'', ''123 Main St'', ''Austin'', ''TX'', ''78701'']]"
        declib id "serve austin"]
      header_exact [of expected_main declib "serve austin" 2025 "[Row plain_row]"
        declib id "serve austin"]
      ok
    by (simp add: expected_main_def expected_p005_def)
qed

section \<open>Quarter of a month\<close>

lemma quarterOf_div:
  assumes "1 \<le> month" and "month \<le> 12"
  shows "quarterOf month = (month - 1) div 3 + 1"
  using assms by (simp add: quarterOf_def signed_divide_int_def sgn_if)

lemma parseDate_month_range:
  "parseDate client date = Inr (m, d, y) \<Longrightarrow> 1 \<le> m \<and> m \<le> 12"
  by (auto simp: parseDate_def Let_def split: option.splits if_splits)

lemma processRow_quarter:
  assumes len: "length row = 7"
    and date: "parseDate (TrimSpace (row ! 0)) (TrimSpace (row ! 1)) = Inr (month, day, year)"
  defines "params \<equiv> \<lparr> q_state = TrimSpace (row ! 5), q_city = TrimSpace (row ! 4),
                         q_zipcode = TrimSpace (row ! 6), q_street = TrimSpace (row ! 3),
                         q_quarter = (month - 1) div 3 + 1, q_year = year \<rparr>"
  shows "svc params = svc' params \<Longrightarrow>
           processRow_p005 lib rng svc row = processRow_p005 lib rng svc' row"
    and "svc params = svc' params \<Longrightarrow>
           processRow_p001 lib svc row = processRow_p001 lib svc' row"
    and "ParseFloat lib (TrimSpace (row ! 2)) = Some charge \<Longrightarrow> svc params = DoFailed e \<Longrightarrow>
           processRow_p005 lib rng svc row
             = Inl (ScrapeFailed (TrimSpace (row ! 0)) (FetchFailed e))"
    and "ParseFloat lib (TrimSpace (row ! 2)) = Some charge \<Longrightarrow> svc params = DoFailed e \<Longrightarrow>
           processRow_p001 lib svc row
             = Inl (ScrapeFailed (TrimSpace (row ! 0)) (FetchFailed e))"
proof -
  have r: "map TrimSpace row ! i = TrimSpace (row ! i)" if "i < 7" for i
    using that len by simp
  have q: "quarterOf month = (month - 1) div 3 + 1"
    using parseDate_month_range [OF date] by (simp add: quarterOf_div)
  show "svc params = svc' params \<Longrightarrow>
           processRow_p005 lib rng svc row = processRow_p005 lib rng svc' row"
    using date
    by (simp add: processRow_p005_def scrapeTaxRates_p005_def Let_def r q params_def
        split: option.splits)
  show "svc params = svc' params \<Longrightarrow>
           processRow_p001 lib svc row = processRow_p001 lib svc' row"
    using date
    by (simp add: processRow_p001_def scrapeTaxRates_p001_def scrapeWith_def Let_def r q
        params_def split: option.splits)
  show "ParseFloat lib (TrimSpace (row ! 2)) = Some charge \<Longrightarrow> svc params = DoFailed e \<Longrightarrow>
           processRow_p005 lib rng svc row
             = Inl (ScrapeFailed (TrimSpace (row ! 0)) (FetchFailed e))"
    using date
    by (simp add: processRow_p005_def scrapeTaxRates_p005_def Let_def r q params_def)
  show "ParseFloat lib (TrimSpace (row ! 2)) = Some charge \<Longrightarrow> svc params = DoFailed e \<Longrightarrow>
           processRow_p001 lib svc row
             = Inl (ScrapeFailed (TrimSpace (row ! 0)) (FetchFailed e))"
    using date
    by (simp add: processRow_p001_def scrapeTaxRates_p001_def scrapeWith_def Let_def r q
        params_def)
qed

text \<open>
  Claim C6. For a month from 1 to 12 the quarter \<open>processCSV\<close> derives, with Go's
  truncating division, is \<open>(month - 1) div 3 + 1\<close>: 1 for the months 1 to 3, 2 for 4 to 6,
  3 for 7 to 9, 4 for 10 to 12, and so between 1 and 4. The month of every date that
  passes the date checks is in that range. That quarter is the one the row's lookup
  asks the rate service for, in \<open>part_005\<close> and in \<open>part_001\<close>: for a row whose date is
  accepted with that month, the result of the row depends on the service only through its
  answer to the query with the row's address, the quarter \<open>(month - 1) div 3 + 1\<close> and the
  year of the date, and when the service fails on that query the row fails with the
  lookup error.
\<close>

theorem quarterOf_months:
  assumes "1 \<le> month" and "month \<le> 12"
  shows "quarterOf month = (month - 1) div 3 + 1 \<and>
         (month \<in> {1, 2, 3} \<longrightarrow> quarterOf month = 1) \<and>
         (month \<in> {4, 5, 6} \<longrightarrow> quarterOf month = 2) \<and>
         (month \<in> {7, 8, 9} \<longrightarrow> quarterOf month = 3) \<and>
         (month \<in> {10, 11, 12} \<longrightarrow> quarterOf month = 4) \<and>
         1 \<le> quarterOf month \<and> quarterOf month \<le> 4 \<and>
         (parseDate client date = Inr (m, d, y) \<longrightarrow>
            1 \<le> m \<and> m \<le> 12 \<and> 1 \<le> quarterOf m \<and> quarterOf m \<le> 4) \<and>
         (length row = 7 \<and>
          parseDate (TrimSpace (row ! 0)) (TrimSpace (row ! 1)) = Inr (month, day, year) \<longrightarrow>
            (svc \<lparr> q_state = TrimSpace (row ! 5), q_city = TrimSpace (row ! 4),
                   q_zipcode = TrimSpace (row ! 6), q_street = TrimSpace (row ! 3),
                   q_quarter = (month - 1) div 3 + 1, q_year = year \<rparr>
               = svc' \<lparr> q_state = TrimSpace (row ! 5), q_city = TrimSpace (row ! 4),
                        q_zipcode = TrimSpace (row ! 6), q_street = TrimSpace (row ! 3),
                        q_quarter = (month - 1) div 3 + 1, q_year = year \<rparr> \<longrightarrow>
               processRow_p005 lib rng svc row = processRow_p005 lib rng svc' row \<and>
               processRow_p001 lib svc row = processRow_p001 lib svc' row) \<and>
            (ParseFloat lib (TrimSpace (row ! 2)) = Some charge \<and>
             svc \<lparr> q_state = TrimSpace (row ! 5), q_city = TrimSpace (row ! 4),
                   q_zipcode = TrimSpace (row ! 6), q_street = TrimSpace (row ! 3),
                   q_quarter = (month - 1) div 3 + 1, q_year = year \<rparr> = DoFailed e \<longrightarrow>
               processRow_p005 lib rng svc row
                 = Inl (ScrapeFailed (TrimSpace (row ! 0)) (FetchFailed e)) \<and>
               processRow_p001 lib svc row
                 = Inl (ScrapeFailed (TrimSpace (row ! 0)) (FetchFailed e))))"
proof -
  have q: "quarterOf month = (month - 1) div 3 + 1"
    using assms by (rule quarterOf_div)
  have t: "(month \<in> {1, 2, 3} \<longrightarrow> (month - 1) div 3 + 1 = 1) \<and>
         (month \<in> {4, 5, 6} \<longrightarrow> (month - 1) div 3 + 1 = 2) \<and>
         (month \<in> {7, 8, 9} \<longrightarrow> (month - 1) div 3 + 1 = 3) \<and>
         (month \<in> {10, 11, 12} \<longrightarrow> (month - 1) div 3 + 1 = 4) \<and>
         1 \<le> (month - 1) div 3 + 1 \<and> (month - 1) div 3 + 1 \<le> 4"
    using assms by auto
  have r: "parseDate client date = Inr (m, d, y) \<longrightarrow>
             1 \<le> m \<and> m \<le> 12 \<and> 1 \<le> quarterOf m \<and> quarterOf m \<le> 4"
    using parseDate_month_range [of client date m d y] quarterOf_div [of m] by auto
  note p = processRow_quarter [where row = row and month = month and day = day
      and year = year and lib = lib and svc = svc]
  show ?thesis
    unfolding q
    by (intro conjI impI; (elim conjE)?)
       (use t r p(1) [of svc' rng] p(2) [of svc'] p(3) [of charge e rng] p(4) [of charge e]
         in \<open>simp_all only:\<close>)
qed

theorem quarterOf_months_witness:
  "(1::int) \<le> 9 \<and> (9::int) \<le> 12 \<and> quarterOf 9 = (9 - 1) div 3 + 1 \<and> quarterOf 9 = 3 \<and>
   length sept_row = 7 \<and>
   parseDate (TrimSpace (sept_row ! 0)) (TrimSpace (sept_row ! 1)) = Inr (9, 15, 2025) \<and>
   ParseFloat declib (TrimSpace (sept_row ! 2)) = Some 80 \<and>
   serve_quarter 3 austin
     \<lparr> q_state = TrimSpace (sept_row ! 5), q_city = TrimSpace (sept_row ! 4),
       q_zipcode = TrimSpace (sept_row ! 6), q_street = TrimSpace (sept_row ! 3),
       q_quarter = (9 - 1) div 3 + 1, q_year = 2025 \<rparr>
     = serve austin
         \<lparr> q_state = TrimSpace (sept_row ! 5), q_city = TrimSpace (sept_row ! 4),
           q_zipcode = TrimSpace (sept_row ! 6), q_street = TrimSpace (sept_row ! 3),
           q_quarter = (9 - 1) div 3 + 1, q_year = 2025 \<rparr> \<and>
   processRow_p005 declib rev (serve_quarter 3 austin) sept_row
     = processRow_p005 declib rev (serve austin) sept_row \<and>
   processRow_p001 declib (serve_quarter 3 austin) sept_row
     = processRow_p001 declib (serve austin) sept_row \<and>
   processRow_p005 declib rev (serve_quarter 3 austin) sept_row
     = Inr \<lparr> Client = ''Sue'', Charge = 80, Street = ''5 Pine Rd'', City = ''Austin'',
             State = ''TX'', Zip = ''78701'', Date = ''09/15/2025'',
             Taxes = [(''AUSTIN'', 8 / 5), (''TRAVIS'', 2 / 5), (''TEXAS'', 5)] \<rparr> \<and>
   serve_quarter 1 austin
     \<lparr> q_state = TrimSpace (sept_row ! 5), q_city = TrimSpace (sept_row ! 4),
       q_zipcode = TrimSpace (sept_row ! 6), q_street = TrimSpace (sept_row ! 3),
       q_quarter = (9 - 1) div 3 + 1, q_year = 2025 \<rparr> = DoFailed ''no such quarter'' \<and>
   processRow_p005 declib rev (serve_quarter 1 austin) sept_row
     = Inl (ScrapeFailed (TrimSpace (sept_row ! 0)) (FetchFailed ''no such quarter'')) \<and>
   processRow_p001 declib (serve_quarter 1 austin) sept_row
     = Inl (ScrapeFailed (TrimSpace (sept_row ! 0)) (FetchFailed ''no such quarter'')) \<and>
   TrimSpace (sept_row ! 0) = ''Sue''"
proof -
  let ?q = "\<lparr> q_state = TrimSpace (sept_row ! 5), q_city = TrimSpace (sept_row ! 4),
               q_zipcode = TrimSpace (sept_row ! 6), q_street = TrimSpace (sept_row ! 3),
               q_quarter = (9 - 1) div 3 + 1, q_year = 2025 \<rparr>"
  have l: "length sept_row = 7"
    by (simp add: sept_row_def)
  have d: "parseDate (TrimSpace (sept_row ! 0)) (TrimSpace (sept_row ! 1)) = Inr (9, 15, 2025)"
    by code_simp
  have c: "ParseFloat declib (TrimSpace (sept_row ! 2)) = Some 80"
    by code_simp
  have a: "serve_quarter 3 austin ?q = serve austin ?q"
    by (simp add: serve_quarter_def serve_def)
  have f: "serve_quarter 1 austin ?q = DoFailed ''no such quarter''"
    by (simp add: serve_quarter_def)
  have v: "processRow_p005 declib rev (serve_quarter 3 austin) sept_row
     = Inr \<lparr> Client = ''Sue'', Charge = 80, Street = ''5 Pine Rd'', City = ''Austin'',
             State = ''TX'', Zip = ''78701'', Date = ''09/15/2025'',
             Taxes = [(''AUSTIN'', 8 / 5), (''TRAVIS'', 2 / 5), (''TEXAS'', 5)] \<rparr>"
    by code_simp
  have n: "TrimSpace (sept_row ! 0) = ''Sue''"
    by code_simp
  have same: "processRow_p005 declib rev (serve_quarter 3 austin) sept_row
                = processRow_p005 declib rev (serve austin) sept_row \<and>
              processRow_p001 declib (serve_quarter 3 austin) sept_row
                = processRow_p001 declib (serve austin) sept_row"
    using quarterOf_months [where month = 9 and row = sept_row and day = 15 and year = 2025
        and svc = "serve_quarter 3 austin" and svc' = "serve austin" and lib = declib
        and rng = rev] l d a
    by simp
  have fail: "processRow_p005 declib rev (serve_quarter 1 austin) sept_row
                = Inl (ScrapeFailed (TrimSpace (sept_row ! 0)) (FetchFailed ''no such quarter'')) \<and>
              processRow_p001 declib (serve_quarter 1 austin) sept_row
                = Inl (ScrapeFailed (TrimSpace (sept_row ! 0)) (FetchFailed ''no such quarter''))"
    using quarterOf_months [where month = 9 and row = sept_row and day = 15 and year = 2025
        and svc = "serve_quarter 1 austin" and lib = declib and charge = 80
        and e = "''no such quarter''" and rng = rev] l d c f
    by simp
  have q1: "quarterOf 9 = (9 - 1) div 3 + 1"
    by (rule quarterOf_months [of 9, THEN conjunct1]) simp_all
  have q: "quarterOf 9 = (9 - 1) div 3 + 1" "quarterOf 9 = 3"
    using q1 by simp_all
  show ?thesis
    using l d c a f v n same fail q by simp
qed

section \<open>Tax amounts\<close>

lemma permuted_map_of:
  assumes "permutes_entries rng" and "distinct (map fst xs)"
  shows "distinct (map fst (rng xs))" and "map_of (rng xs) = map_of xs"
proof -
  have m: "mset (rng xs) = mset xs"
    using assms(1) by (simp add: permutes_entries_def)
  then have "mset (map fst (rng xs)) = mset (map fst xs)"
    by (metis mset_map)
  then show d: "distinct (map fst (rng xs))"
    using assms(2) by (metis mset_eq_imp_distinct_iff)
  have "set (rng xs) = set xs"
    using m by (metis set_mset_mset)
  then show "map_of (rng xs) = map_of xs"
    using d assms(2) by (simp add: map_of_inject_set)
qed

lemma permuted_keys:
  assumes "permutes_entries rng"
  shows "set (rng xs) = set xs"
  using assms by (metis permutes_entries_def set_mset_mset)

lemma calcTaxes_map_of:
  "distinct (map fst kvs) \<Longrightarrow>
   map_of (calcTaxes lib charge kvs acc) j =
     (case map_of kvs j of None \<Rightarrow> map_of acc j | Some r \<Rightarrow> Some (fmul lib charge r))"
proof (induction kvs arbitrary: acc)
  case Nil
  show ?case by (simp add: calcTaxes_def)
next
  case (Cons kv kvs)
  obtain k v where kv: "kv = (k, v)" by (cases kv)
  have step: "calcTaxes lib charge ((k, v) # kvs) acc
                = calcTaxes lib charge kvs (AList.update k (fmul lib charge v) acc)"
    by (simp add: calcTaxes_def)
  have notin: "map_of kvs k = None"
    using Cons.prems kv by (simp add: map_of_eq_None_iff)
  show ?case
    using Cons.IH [of "AList.update k (fmul lib charge v) acc"] Cons.prems notin
    unfolding kv step by (auto simp: update_conv' split: option.splits)
qed

lemma calcTaxes_distinct:
  "distinct (map fst acc) \<Longrightarrow> distinct (map fst (calcTaxes lib charge kvs acc))"
  unfolding calcTaxes_def
  by (induction kvs arbitrary: acc) (auto simp: distinct_update)

lemma collectRates_p005_distinct:
  "distinct (map fst m) \<Longrightarrow> distinct (map fst (snd (collectRates_p005 lib es (lg, m))))"
  by (induction es arbitrary: lg m) (auto simp: distinct_update split: option.splits)

lemma scrapeTaxRates_p005_distinct:
  "snd (scrapeTaxRates_p005 lib svc street city state zipcode quarter year) = Inr taxRates
   \<Longrightarrow> distinct (map fst taxRates)"
proof -
  have d: "distinct (map fst (snd (collectRates_p005 lib es (lg, []))))" for es lg
    by (rule collectRates_p005_distinct) simp
  show "snd (scrapeTaxRates_p005 lib svc street city state zipcode quarter year) = Inr taxRates
   \<Longrightarrow> distinct (map fst taxRates)"
    unfolding scrapeTaxRates_p005_def
    by (auto simp: Let_def split: reply.splits if_splits sum.splits prod.splits)
       (metis d snd_conv)
qed

text \<open>
  Claim C1. The tax calculation is the loop \<open>rec.Taxes[juris] = charge * rate\<close> over the
  rates, started on the empty map (\<open>part_005\<close> lines 205 to 207): whatever order the
  \<open>range\<close> takes, the result has, for every jurisdiction of the rates, the product of the
  charge and its rate, and no entry for any other jurisdiction. So has the record
  \<open>processCSV\<close> builds from the rates the lookup returned; in \<open>main.go\<close> (lines 134 to 136)
  the three tax fields are the products of the charge and the three rates. The functions
  are total and return values only.
\<close>

theorem tax_amounts:
  assumes "permutes_entries rng"
  shows "(distinct (map fst rates) \<longrightarrow>
            map_of (calcTaxes lib charge (rng rates) []) j
              = map_option (fmul lib charge) (map_of rates j)) \<and>
         (processRow_p005 lib rng svc row = Inr rec \<longrightarrow>
            (\<exists>taxRates quarter year.
               snd (scrapeTaxRates_p005 lib svc (Street rec) (City rec) (State rec) (Zip rec)
                      quarter year) = Inr taxRates \<and>
               map_of (Taxes rec) j = map_option (fmul lib (Charge rec)) (map_of taxRates j))) \<and>
         (processRow_main lib svc' now row' = Inr rec' \<longrightarrow>
            (\<exists>cityRate countyRate stateRate.
               snd (scrapeTaxRates_main lib svc' now (Street rec') (City rec') (State rec')
                      (Zip rec')) = Inr (cityRate, countyRate, stateRate) \<and>
               CityTax rec' = fmul lib (Charge rec') cityRate \<and>
               CountyTax rec' = fmul lib (Charge rec') countyRate \<and>
               StateTax rec' = fmul lib (Charge rec') stateRate))"
proof -
  have calc: "map_of (calcTaxes lib c (rng rs) []) j = map_option (fmul lib c) (map_of rs j)"
    if "distinct (map fst rs)" for c rs
    using permuted_map_of [OF assms that] calcTaxes_map_of [of "rng rs" lib c "[]" j]
    by (simp split: option.splits)
  have p005: "\<exists>taxRates quarter year.
               snd (scrapeTaxRates_p005 lib svc (Street rec) (City rec) (State rec) (Zip rec)
                      quarter year) = Inr taxRates \<and>
               map_of (Taxes rec) j = map_option (fmul lib (Charge rec)) (map_of taxRates j)"
    if ok: "processRow_p005 lib rng svc row = Inr rec"
  proof -
    let ?r = "map TrimSpace row"
    from ok obtain month day year charge taxRates where
      s: "snd (scrapeTaxRates_p005 lib svc (?r ! 3) (?r ! 4) (?r ! 5) (?r ! 6)
                 (quarterOf month) year) = Inr taxRates"
      and r: "rec = \<lparr> Client = ?r ! 0, Charge = charge, Street = ?r ! 3, City = ?r ! 4,
                      State = ?r ! 5, Zip = ?r ! 6, Date = ?r ! 1,
                      Taxes = calcTaxes lib charge (rng taxRates) [] \<rparr>"
      by (auto simp: processRow_p005_def Let_def split: sum.splits option.splits prod.splits)
    have "distinct (map fst taxRates)"
      using s by (rule scrapeTaxRates_p005_distinct)
    then show ?thesis
      using s calc [of taxRates charge] by (auto simp: r)
  qed
  have main: "\<exists>cityRate countyRate stateRate.
               snd (scrapeTaxRates_main lib svc' now (Street rec') (City rec') (State rec')
                      (Zip rec')) = Inr (cityRate, countyRate, stateRate) \<and>
               CityTax rec' = fmul lib (Charge rec') cityRate \<and>
               CountyTax rec' = fmul lib (Charge rec') countyRate \<and>
               StateTax rec' = fmul lib (Charge rec') stateRate"
    if ok: "processRow_main lib svc' now row' = Inr rec'"
    using ok
    by (auto simp: processRow_main_def Let_def split: sum.splits option.splits prod.splits)
  show ?thesis
    using calc p005 main by blast
qed

lemma permutes_rev: "permutes_entries rev"
  by (simp add: permutes_entries_def)

theorem tax_amounts_witness:
  "permutes_entries (rev :: (string \<times> rat) list \<Rightarrow> (string \<times> rat) list) \<and>
   distinct (map fst [(''TEXAS'', 1 / 16 :: rat), (''AUSTIN'', 1 / 50)]) \<and>
   map_of (calcTaxes declib 100 (rev [(''TEXAS'', 1 / 16), (''AUSTIN'', 1 / 50)]) []) ''AUSTIN''
     = Some 2 \<and>
   map_of (calcTaxes declib 100 (rev [(''TEXAS'', 1 / 16), (''AUSTIN'', 1 / 50)]) []) ''TRAVIS''
     = None \<and>
   processRow_p005 declib rev (serve austin)
       [''John'', ''02/22/2025'', ''100.00'', ''123 Main St'', ''Austin'', ''TX'', ''78701'']
     = Inr \<lparr> Client = ''John'', Charge = 100, Street = ''123 Main St'', City = ''Austin'',
             State = ''TX'', Zip = ''78701'', Date = ''02/22/2025'',
             Taxes = [(''AUSTIN'', 2), (''TRAVIS'', 1 / 2), (''TEXAS'', 25 / 4)] \<rparr> \<and>
   processRow_main declib (serve austin) 2025
       [''John'', ''100.00'', ''123 Main St'', ''Austin'', ''TX'', ''78701'']
     = Inr \<lparr> Client = ''John'', Charge = 100, Street = ''123 Main St'', City = ''Austin'',
             State = ''TX'', Zip = ''78701'', CityTax = 2, CountyTax = 1 / 2,
             StateTax = 25 / 4 \<rparr>"
proof -
  let ?rates = "[(''TEXAS'', 1 / 16 :: rat), (''AUSTIN'', 1 / 50)]"
  have h: "permutes_entries (rev :: (string \<times> rat) list \<Rightarrow> (string \<times> rat) list)"
    by (rule permutes_rev)
  have d: "distinct (map fst ?rates)"
    by simp
  have a: "map_of (calcTaxes declib 100 (rev ?rates) []) ''AUSTIN'' = Some 2"
    using tax_amounts [OF h, where rates = ?rates and lib = declib and charge = 100
        and j = "''AUSTIN''"] d
    by (simp add: declib_def)
  have b: "map_of (calcTaxes declib 100 (rev ?rates) []) ''TRAVIS'' = None"
    using tax_amounts [OF h, where rates = ?rates and lib = declib and charge = 100
        and j = "''TRAVIS''"] d
    by simp
  have c: "processRow_p005 declib rev (serve austin)
       [''John'', ''02/22/2025'', ''100.00'', ''123 Main St'', ''Austin'', ''TX'', ''78701'']
     = Inr \<lparr> Client = ''John'', Charge = 100, Street = ''123 Main St'', City = ''Austin'',
             State = ''TX'', Zip = ''78701'', Date = ''02/22/2025'',
             Taxes = [(''AUSTIN'', 2), (''TRAVIS'', 1 / 2), (''TEXAS'', 25 / 4)] \<rparr>"
    by code_simp
  have e: "processRow_main declib (serve austin) 2025
       [''John'', ''100.00'', ''123 Main St'', ''Austin'', ''TX'', ''78701'']
     = Inr \<lparr> Client = ''John'', Charge = 100, Street = ''123 Main St'', City = ''Austin'',
             State = ''TX'', Zip = ''78701'', CityTax = 2, CountyTax = 1 / 2,
             StateTax = 25 / 4 \<rparr>"
    by code_simp
  show ?thesis
    using h d a b c e by blast
qed

section \<open>The report with one column per jurisdiction\<close>

lemma markNames_keys:
  "fst ` set (fold (\<lambda>(juris, _) js'. AList.update juris True js') kvs js)
     = fst ` set js \<union> fst ` set kvs"
  by (induction kvs arbitrary: js) (auto simp: dom_update split: prod.splits)

lemma markNames_distinct:
  "distinct (map fst js) \<Longrightarrow>
   distinct (map fst (fold (\<lambda>(juris, _) js'. AList.update juris True js') kvs js))"
  by (induction kvs arbitrary: js) (auto simp: distinct_update split: prod.splits)

lemma jurisSet_keys:
  assumes "permutes_entries rngT"
  shows "fst ` set (fold (\<lambda>rec js. fold (\<lambda>(juris, _) js'. AList.update juris True js')
                                       (rngT (Taxes rec)) js) records js0)
           = fst ` set js0 \<union> (\<Union>rec\<in>set records. fst ` set (Taxes rec))"
  by (induction records arbitrary: js0)
     (auto simp: markNames_keys permuted_keys [OF assms])

lemma jurisSet_distinct:
  "distinct (map fst js0) \<Longrightarrow>
   distinct (map fst (fold (\<lambda>rec js. fold (\<lambda>(juris, _) js'. AList.update juris True js')
                                       (rngT (Taxes rec)) js) records js0))"
  by (induction records arbitrary: js0) (auto simp: markNames_distinct)

lemma appendNames: "fold (\<lambda>(juris, _) jurisNames. jurisNames @ [juris]) xs acc = acc @ map fst xs"
  by (induction xs arbitrary: acc) (auto split: prod.splits)

lemma appendCells: "fold (\<lambda>juris row. row @ [g juris]) names acc = acc @ map g names"
  by (induction names arbitrary: acc) auto

lemma getAllJurisNames_set:
  assumes "permutes_entries rngT" and "permutes_entries rngS"
  shows "set (getAllJurisNames rngT rngS records) = (\<Union>rec\<in>set records. fst ` set (Taxes rec))"
    and "distinct (getAllJurisNames rngT rngS records)"
proof -
  let ?js = "fold (\<lambda>rec js. fold (\<lambda>(juris, _) js'. AList.update juris True js')
                              (rngT (Taxes rec)) js) records []"
  have n: "getAllJurisNames rngT rngS records = map fst (rngS ?js)"
    by (simp add: getAllJurisNames_def appendNames)
  have "set (map fst (rngS ?js)) = fst ` set ?js"
    using permuted_keys [OF assms(2)] by simp
  then show "set (getAllJurisNames rngT rngS records)
               = (\<Union>rec\<in>set records. fst ` set (Taxes rec))"
    using jurisSet_keys [OF assms(1), of records "[]"] by (simp add: n)
  have "distinct (map fst ?js)"
    by (rule jurisSet_distinct) simp
  then show "distinct (getAllJurisNames rngT rngS records)"
    using permuted_map_of(1) [OF assms(2)] by (simp add: n)
qed

lemma index0_missing: "k \<notin> fst ` set m \<Longrightarrow> index0 lib m k = fzero lib"
  using map_of_eq_None_iff [of m k] by (simp add: index0_def)

text \<open>
  Claim C2. In the report of \<open>part_005\<close> the names after the seven fixed columns are,
  without repetition, exactly the jurisdiction names that occur in the tax map of some
  record; every data row is as long as the header and its cell under a name is the
  formatted tax of the record for that name, so all rows use the columns of the header in
  the header's order; and a record whose map lacks the name has \<open>0.00\<close> there. The
  orders of the \<open>range\<close> loops are arbitrary. \<open>0.00\<close> is what \<open>Sprintf("%.2f", 0.0)\<close>
  returns, a fact of the library taken as an assumption.
\<close>

theorem dynamic_columns:
  assumes "permutes_entries rngT" and "permutes_entries rngS"
    and "Sprintf2 lib (fzero lib) = ''0.00''"
  shows "let jurisNames = getAllJurisNames rngT rngS records;
             rows = taxRatesHandler_p005 lib rngT rngS records
         in set jurisNames = (\<Union>rec\<in>set records. fst ` set (Taxes rec)) \<and>
            distinct jurisNames \<and>
            length rows = Suc (length records) \<and>
            rows ! 0 = [''client'', ''date'', ''charge'', ''street address'', ''city'',
                        ''State'', ''zip code''] @ jurisNames \<and>
            (\<forall>i<length records.
               length (rows ! Suc i) = length (rows ! 0) \<and>
               (\<forall>k<length jurisNames.
                  rows ! Suc i ! (7 + k)
                    = Sprintf2 lib (index0 lib (Taxes (records ! i)) (jurisNames ! k)) \<and>
                  (jurisNames ! k \<notin> fst ` set (Taxes (records ! i)) \<longrightarrow>
                     rows ! Suc i ! (7 + k) = ''0.00'')))"
proof -
  let ?names = "getAllJurisNames rngT rngS records"
  let ?rows = "taxRatesHandler_p005 lib rngT rngS records"
  let ?cell = "\<lambda>rec juris. Sprintf2 lib (index0 lib (Taxes rec) juris)"
  let ?fixed = "\<lambda>rec. [Client rec, Date rec, Sprintf2 lib (Charge rec), Street rec, City rec,
                        State rec, Zip rec]"
  have rows: "?rows = ([''client'', ''date'', ''charge'', ''street address'', ''city'',
                        ''State'', ''zip code''] @ ?names)
                      # map (\<lambda>rec. ?fixed rec @ map (?cell rec) ?names) records"
    by (simp add: taxRatesHandler_p005_def detailRows_def Let_def appendCells)
  have row: "?rows ! Suc i = ?fixed (records ! i) @ map (?cell (records ! i)) ?names"
    if "i < length records" for i
    using that by (simp add: rows)
  have cell: "?rows ! Suc i ! (7 + k) = ?cell (records ! i) (?names ! k)"
    if "i < length records" "k < length ?names" for i k
    using that by (simp add: row nth_append)
  have zero: "?rows ! Suc i ! (7 + k) = ''0.00''"
    if "i < length records" "k < length ?names"
      "?names ! k \<notin> fst ` set (Taxes (records ! i))" for i k
    using that assms(3) by (simp add: cell index0_missing)
  have len: "length (?rows ! Suc i) = length (?rows ! 0)" if "i < length records" for i
    using that by (simp add: row) (simp add: rows)
  have body: "length (?rows ! Suc i) = length (?rows ! 0) \<and>
               (\<forall>k<length ?names.
                  ?rows ! Suc i ! (7 + k) = ?cell (records ! i) (?names ! k) \<and>
                  (?names ! k \<notin> fst ` set (Taxes (records ! i)) \<longrightarrow>
                     ?rows ! Suc i ! (7 + k) = ''0.00''))"
    if "i < length records" for i
    using that len [of i] cell [of i] zero [of i] by blast
  have l: "length ?rows = Suc (length records)"
    by (simp add: rows)
  have h: "?rows ! 0 = [''client'', ''date'', ''charge'', ''street address'', ''city'',
                        ''State'', ''zip code''] @ ?names"
    by (simp add: rows)
  show ?thesis
    unfolding Let_def
    using getAllJurisNames_set [OF assms(1,2), of records] l h body
    by (intro conjI allI impI) blast+
qed

theorem dynamic_columns_witness:
  "permutes_entries (rev :: (string \<times> rat) list \<Rightarrow> (string \<times> rat) list) \<and>
   permutes_entries (rev :: (string \<times> bool) list \<Rightarrow> (string \<times> bool) list) \<and>
   Sprintf2 declib (fzero declib) = ''0.00'' \<and>
   getAllJurisNames rev rev [john, mary] = [''DALLAS'', ''TEXAS'', ''TRAVIS'', ''AUSTIN''] \<and>
   ''DALLAS'' \<notin> fst ` set (Taxes john) \<and>
   taxRatesHandler_p005 declib rev rev [john, mary] ! 1 ! 7 = ''0.00'' \<and>
   taxRatesHandler_p005 declib rev rev [john, mary]
     = [[''client'', ''date'', ''charge'', ''street address'', ''city'', ''State'',
         ''zip code'', ''DALLAS'', ''TEXAS'', ''TRAVIS'', ''AUSTIN''],
        [''John'', ''02/22/2025'', ''100.00'', ''123 Main St'', ''Austin'', ''TX'', ''78701'',
         ''0.00'', ''6.25'', ''0.50'', ''2.00''],
        [''Mary'', ''05/01/2025'', ''200.00'', ''1 Elm St'', ''Dallas'', ''TX'', ''75201'',
         ''2.00'', ''12.50'', ''0.00'', ''0.00'']]"
proof -
  let ?names = "getAllJurisNames rev rev [john, mary]"
  let ?rows = "taxRatesHandler_p005 declib rev rev [john, mary]"
  have h1: "permutes_entries (rev :: (string \<times> rat) list \<Rightarrow> (string \<times> rat) list)"
    and h2: "permutes_entries (rev :: (string \<times> bool) list \<Rightarrow> (string \<times> bool) list)"
    by (rule permutes_rev)+
  have h3: "Sprintf2 declib (fzero declib) = ''0.00''"
    by code_simp
  have n: "?names = [''DALLAS'', ''TEXAS'', ''TRAVIS'', ''AUSTIN'']"
    by code_simp
  have k: "''DALLAS'' \<notin> fst ` set (Taxes john)"
    by (simp add: john_def)
  have c: "?rows ! Suc i ! (7 + k) = ''0.00''"
    if "i < length [john, mary]" "k < length ?names"
      "?names ! k \<notin> fst ` set (Taxes ([john, mary] ! i))" for i k
    using dynamic_columns [OF h1 h2 h3, of "[john, mary]"] that
    unfolding Let_def by blast
  have z: "?rows ! 1 ! 7 = ''0.00''"
    using c [of 0 0] k by (simp add: n)
  have full: "?rows
     = [[''client'', ''date'', ''charge'', ''street address'', ''city'', ''State'',
         ''zip code'', ''DALLAS'', ''TEXAS'', ''TRAVIS'', ''AUSTIN''],
        [''John'', ''02/22/2025'', ''100.00'', ''123 Main St'', ''Austin'', ''TX'', ''78701'',
         ''0.00'', ''6.25'', ''0.50'', ''2.00''],
        [''Mary'', ''05/01/2025'', ''200.00'', ''1 Elm St'', ''Dallas'', ''TX'', ''75201'',
         ''2.00'', ''12.50'', ''0.00'', ''0.00'']]"
    by code_simp
  show ?thesis
    using h1 h2 h3 n k z full by blast
qed

section \<open>Totals per jurisdiction\<close>

lemma addTaxes_map_of:
  "distinct (map fst kvs) \<Longrightarrow>
   map_of (fold (\<lambda>(juris, tax) t. AList.update juris (fadd lib (index0 lib t juris) tax) t)
             kvs tot) j
     = (case map_of kvs j of
          None \<Rightarrow> map_of tot j
        | Some tax \<Rightarrow> Some (fadd lib (index0 lib tot j) tax))"
proof (induction kvs arbitrary: tot)
  case Nil
  show ?case by simp
next
  case (Cons kv kvs)
  obtain k v where kv: "kv = (k, v)" by (cases kv)
  let ?tot = "AList.update k (fadd lib (index0 lib tot k) v) tot"
  have notin: "map_of kvs k = None"
    using Cons.prems kv by (simp add: map_of_eq_None_iff)
  have other: "index0 lib ?tot j = index0 lib tot j" if "j \<noteq> k"
    using that by (simp add: index0_def update_conv')
  show ?case
    using Cons.IH [of ?tot] Cons.prems notin other
    unfolding kv by (auto simp: update_conv' split: option.splits)
qed

lemma addTaxes_distinct:
  "distinct (map fst tot) \<Longrightarrow>
   distinct (map fst (fold (\<lambda>(juris, tax) t.
                              AList.update juris (fadd lib (index0 lib t juris) tax) t)
                        kvs tot))"
  by (induction kvs arbitrary: tot) (auto simp: distinct_update split: prod.splits)

lemma totals_fold:
  assumes "permutes_entries rngT"
    and "\<forall>rec\<in>set records. distinct (map fst (Taxes rec))"
  shows "map_of (fold (\<lambda>rec totals.
                          fold (\<lambda>(juris, tax) t.
                                  AList.update juris (fadd lib (index0 lib t juris) tax) t)
                            (rngT (Taxes rec)) totals)
                   records tot) j
           = (if j \<in> fst ` set tot \<or> (\<exists>rec\<in>set records. j \<in> fst ` set (Taxes rec))
              then Some (foldl (\<lambda>acc rec. case map_of (Taxes rec) j of
                                             None \<Rightarrow> acc
                                           | Some tax \<Rightarrow> fadd lib acc tax)
                           (index0 lib tot j) records)
              else None)"
  using assms(2)
proof (induction records arbitrary: tot)
  case Nil
  show ?case
    using map_of_eq_None_iff [of tot j]
    by (cases "map_of tot j") (auto simp: index0_def)
next
  case (Cons rec records)
  let ?tot = "fold (\<lambda>(juris, tax) t. AList.update juris (fadd lib (index0 lib t juris) tax) t)
                (rngT (Taxes rec)) tot"
  have d: "distinct (map fst (Taxes rec))"
    using Cons.prems by simp
  have m: "map_of ?tot j
             = (case map_of (Taxes rec) j of
                  None \<Rightarrow> map_of tot j
                | Some tax \<Rightarrow> Some (fadd lib (index0 lib tot j) tax))"
    using addTaxes_map_of [OF permuted_map_of(1) [OF assms(1) d], of lib tot j]
      permuted_map_of(2) [OF assms(1) d]
    by simp
  have keys: "j \<in> fst ` set ?tot \<longleftrightarrow> j \<in> fst ` set tot \<or> j \<in> fst ` set (Taxes rec)"
    using map_of_eq_None_iff [of ?tot j] map_of_eq_None_iff [of tot j]
      map_of_eq_None_iff [of "Taxes rec" j] m
    by (auto split: option.splits)
  have i: "index0 lib ?tot j
             = (case map_of (Taxes rec) j of
                  None \<Rightarrow> index0 lib tot j
                | Some tax \<Rightarrow> fadd lib (index0 lib tot j) tax)"
    using m by (simp add: index0_def split: option.splits)
  have "\<forall>r\<in>set records. distinct (map fst (Taxes r))"
    using Cons.prems by simp
  from Cons.IH [OF this, of ?tot] show ?case
    by (simp add: keys i)
qed

lemma totals_distinct:
  "distinct (map fst tot) \<Longrightarrow>
   distinct (map fst (fold (\<lambda>rec totals.
                          fold (\<lambda>(juris, tax) t.
                                  AList.update juris (fadd lib (index0 lib t juris) tax) t)
                            (rngT (Taxes rec)) totals)
                   records tot))"
  by (induction records arbitrary: tot) (auto simp: addTaxes_distinct)

lemma forRows_all:
  assumes "forRows body n input acc = Inr records"
    and "\<forall>r\<in>set acc. P r"
    and "\<And>row rec. body row = Inr rec \<Longrightarrow> P rec"
  shows "\<forall>r\<in>set records. P r"
  using assms(1,2)
proof (induction input arbitrary: acc)
  case Nil
  then show ?case by simp
next
  case (Cons rd input)
  from Cons.prems(1) obtain row rec where
    "body row = Inr rec" "forRows body n input (acc @ [rec]) = Inr records"
    by (auto split: sum.splits)
  then show ?case
    using Cons.IH [of "acc @ [rec]"] Cons.prems(2) assms(3) by auto
qed

lemma processRow_p005_distinct:
  "processRow_p005 lib rng svc row = Inr rec \<Longrightarrow> distinct (map fst (Taxes rec))"
  using calcTaxes_distinct [of "[]" lib]
  by (auto simp: processRow_p005_def Let_def split: sum.splits option.splits prod.splits)

lemma processCSV_p005_distinct:
  assumes "processCSV_p005 lib rng svc input = Inr records"
  shows "\<forall>rec\<in>set records. distinct (map fst (Taxes rec))"
proof -
  from assms obtain n rest where
    "forRows (processRow_p005 lib rng svc) n rest [] = Inr records"
    by (auto simp: processCSV_p005_def split: list.splits sum.splits if_splits)
  then show ?thesis
    using forRows_all [where P = "\<lambda>rec. distinct (map fst (Taxes rec))"]
      processRow_p005_distinct
    by (metis empty_iff empty_set)
qed

lemma total_spec_zero:
  assumes "Q (fzero lib)"
    and "\<And>x t. Q x \<Longrightarrow> Q (fadd lib x t)"
    and "\<And>x. Q x \<Longrightarrow> fadd lib x (fzero lib) = x"
  shows "total_spec lib j records
           = foldl (\<lambda>acc rec. fadd lib acc (index0 lib (Taxes rec) j)) (fzero lib) records"
proof -
  have "Q a \<Longrightarrow>
        foldl (\<lambda>acc rec. case map_of (Taxes rec) j of None \<Rightarrow> acc | Some tax \<Rightarrow> fadd lib acc tax)
          a records
        = foldl (\<lambda>acc rec. fadd lib acc (index0 lib (Taxes rec) j)) a records" for a
  proof (induction records arbitrary: a)
    case Nil
    show ?case by simp
  next
    case (Cons rec records)
    show ?case
    proof (cases "map_of (Taxes rec) j")
      case None
      then show ?thesis
        using Cons.IH [OF Cons.prems] assms(3) [OF Cons.prems] by (simp add: index0_def)
    next
      case (Some tax)
      then show ?thesis
        using Cons.IH [OF assms(2) [OF Cons.prems, of tax]] by (simp add: index0_def)
    qed
  qed
  then show ?thesis
    using assms(1) by (simp add: total_spec_def)
qed

text \<open>
  Claim C7. The totals map \<open>taxRatesHandler\<close> of \<open>part_004\<close> builds has an entry exactly
  for the jurisdictions that occur in some record, and the entry is \<open>total_spec\<close>: the
  sum over all records of the record's tax for the jurisdiction, a record lacking it
  contributing nothing. The totals table has the header and one row for each such
  jurisdiction, with the formatted total. A record's tax map has distinct keys, as every
  Go map has and as the records \<open>processCSV\<close> returns have. The sum is also the one in
  which a record lacking the jurisdiction contributes the zero value \<open>rec.Taxes[j]\<close>, in
  every arithmetic where adding zero leaves a running total unchanged; \<open>Q\<close> is a property
  of the running totals (for float64: not being the negative zero).
\<close>

theorem jurisdiction_totals:
  assumes "permutes_entries rngT"
    and "\<forall>rec\<in>set records. distinct (map fst (Taxes rec))"
  shows "map_of (jurisTotals lib rngT records) j
           = (if \<exists>rec\<in>set records. j \<in> fst ` set (Taxes rec)
              then Some (total_spec lib j records) else None) \<and>
         distinct (map fst (jurisTotals lib rngT records)) \<and>
         set (totalRows lib rngT (jurisTotals lib rngT records))
           = insert [''Jurisdiction'', ''total'']
               ((\<lambda>j. [j, Sprintf2 lib (total_spec lib j records)])
                  ` (\<Union>rec\<in>set records. fst ` set (Taxes rec))) \<and>
         (Q (fzero lib) \<and> (\<forall>x t. Q x \<longrightarrow> Q (fadd lib x t)) \<and>
          (\<forall>x. Q x \<longrightarrow> fadd lib x (fzero lib) = x) \<longrightarrow>
            total_spec lib j records
              = foldl (\<lambda>acc rec. fadd lib acc (index0 lib (Taxes rec) j)) (fzero lib) records)"
proof -
  have z: "Q (fzero lib) \<and> (\<forall>x t. Q x \<longrightarrow> Q (fadd lib x t)) \<and>
          (\<forall>x. Q x \<longrightarrow> fadd lib x (fzero lib) = x) \<longrightarrow>
            total_spec lib j records
              = foldl (\<lambda>acc rec. fadd lib acc (index0 lib (Taxes rec) j)) (fzero lib) records"
    using total_spec_zero [of Q lib j records] by blast
  let ?t = "jurisTotals lib rngT records"
  have m: "map_of ?t j
           = (if \<exists>rec\<in>set records. j \<in> fst ` set (Taxes rec)
              then Some (total_spec lib j records) else None)" for j
    using totals_fold [OF assms, of lib "[]" j]
    by (simp add: jurisTotals_def total_spec_def index0_def)
  have d: "distinct (map fst ?t)"
    unfolding jurisTotals_def by (rule totals_distinct) simp
  have mem: "(k, v) \<in> set ?t \<longleftrightarrow>
               (\<exists>rec\<in>set records. k \<in> fst ` set (Taxes rec)) \<and> v = total_spec lib k records"
    for k v
    using map_of_eq_Some_iff [OF d, of k v] m [of k] by (auto split: if_splits)
  have "set (map (\<lambda>(juris, total). [juris, Sprintf2 lib total]) (rngT ?t))
          = (\<lambda>j. [j, Sprintf2 lib (total_spec lib j records)])
               ` (\<Union>rec\<in>set records. fst ` set (Taxes rec))"
  proof (intro set_eqI iffI)
    fix row
    assume "row \<in> set (map (\<lambda>(juris, total). [juris, Sprintf2 lib total]) (rngT ?t))"
    then obtain k v where "(k, v) \<in> set ?t" "row = [k, Sprintf2 lib v]"
      using permuted_keys [OF assms(1), of ?t] by auto
    then show "row \<in> (\<lambda>j. [j, Sprintf2 lib (total_spec lib j records)])
                       ` (\<Union>rec\<in>set records. fst ` set (Taxes rec))"
      using mem [of k v] by auto
  next
    fix row
    assume "row \<in> (\<lambda>j. [j, Sprintf2 lib (total_spec lib j records)])
                       ` (\<Union>rec\<in>set records. fst ` set (Taxes rec))"
    then obtain k where k: "\<exists>rec\<in>set records. k \<in> fst ` set (Taxes rec)"
      and row: "row = [k, Sprintf2 lib (total_spec lib k records)]"
      by auto
    then have "(k, total_spec lib k records) \<in> set (rngT ?t)"
      using mem [of k "total_spec lib k records"] permuted_keys [OF assms(1), of ?t] by simp
    then show "row \<in> set (map (\<lambda>(juris, total). [juris, Sprintf2 lib total]) (rngT ?t))"
      unfolding row by force
  qed
  then have "set (totalRows lib rngT ?t)
           = insert [''Jurisdiction'', ''total'']
               ((\<lambda>j. [j, Sprintf2 lib (total_spec lib j records)])
                  ` (\<Union>rec\<in>set records. fst ` set (Taxes rec)))"
    by (simp add: totalRows_def)
  then show ?thesis
    using m [of j] d z by blast
qed

theorem jurisdiction_totals_witness:
  "permutes_entries (rev :: (string \<times> rat) list \<Rightarrow> (string \<times> rat) list) \<and>
   distinct (map fst (Taxes john)) \<and> distinct (map fst (Taxes mary)) \<and>
   map_of (jurisTotals declib rev [john, mary]) ''TEXAS'' = Some (75 / 4) \<and>
   map_of (jurisTotals declib rev [john, mary]) ''HOUSTON'' = None \<and>
   (\<forall>x. fadd declib x (fzero declib) = x) \<and>
   foldl (\<lambda>acc rec. fadd declib acc (index0 declib (Taxes rec) ''TEXAS'')) (fzero declib)
     [john, mary] = 75 / 4 \<and>
   snd (taxRatesHandler_p004 declib rev rev [john, mary])
     = [[''Jurisdiction'', ''total''], [''DALLAS'', ''2.00''], [''TEXAS'', ''18.75''],
        [''TRAVIS'', ''0.50''], [''AUSTIN'', ''2.00'']]"
proof -
  have h: "permutes_entries (rev :: (string \<times> rat) list \<Rightarrow> (string \<times> rat) list)"
    by (rule permutes_rev)
  have d1: "distinct (map fst (Taxes john))" and d2: "distinct (map fst (Taxes mary))"
    by (simp_all add: john_def mary_def)
  then have d: "\<forall>rec\<in>set [john, mary]. distinct (map fst (Taxes rec))"
    by simp
  have t: "total_spec declib ''TEXAS'' [john, mary] = 75 / 4"
    by code_simp
  have a: "map_of (jurisTotals declib rev [john, mary]) ''TEXAS'' = Some (75 / 4)"
    using jurisdiction_totals [OF h d, of declib "''TEXAS''", THEN conjunct1] t
    by (simp add: john_def)
  have b: "map_of (jurisTotals declib rev [john, mary]) ''HOUSTON'' = None"
    using jurisdiction_totals [OF h d, of declib "''HOUSTON''", THEN conjunct1]
    by (simp add: john_def mary_def)
  have z: "\<forall>x. fadd declib x (fzero declib) = x"
    by (simp add: declib_def)
  have s: "foldl (\<lambda>acc rec. fadd declib acc (index0 declib (Taxes rec) ''TEXAS''))
             (fzero declib) [john, mary] = 75 / 4"
    using jurisdiction_totals [OF h d, of declib "''TEXAS''" "\<lambda>x. True"] z t
    by simp
  have c: "snd (taxRatesHandler_p004 declib rev rev [john, mary])
     = [[''Jurisdiction'', ''total''], [''DALLAS'', ''2.00''], [''TEXAS'', ''18.75''],
        [''TRAVIS'', ''0.50''], [''AUSTIN'', ''2.00'']]"
    by code_simp
  show ?thesis
    using h d1 d2 a b z s c by blast
qed

section \<open>Date checks\<close>


lemma parseDate_error:
  "parseDate client date = Inl e \<Longrightarrow> is_date_error client date e"
  by (auto simp: parseDate_def is_date_error_def Let_def split: option.splits if_splits)






section \<open>Trimming\<close>

lemma TrimLeft_leading: "leadingSpace (TrimLeft s) = None"
proof (induction s rule: TrimLeft.induct)
  case (1 s)
  show ?case
  proof (cases "leadingSpace s")
    case None
    then show ?thesis by (subst TrimLeft.simps) simp
  next
    case (Some w)
    then show ?thesis
      using "1.IH" [OF Some] by (subst TrimLeft.simps) simp
  qed
qed

lemma TrimRight_trailing: "trailingSpace (TrimRight s) = None"
proof (induction s rule: TrimRight.induct)
  case (1 s)
  show ?case
  proof (cases "trailingSpace s")
    case None
    then show ?thesis by (subst TrimRight.simps) simp
  next
    case (Some w)
    then show ?thesis
      using "1.IH" [OF Some] by (subst TrimRight.simps) simp
  qed
qed

lemma TrimRight_prefix: "prefix (TrimRight s) s"
proof (induction s rule: TrimRight.induct)
  case (1 s)
  show ?case
  proof (cases "trailingSpace s")
    case None
    then show ?thesis by (subst TrimRight.simps) simp
  next
    case (Some w)
    have "prefix (TrimRight (take (length s - length w) s)) (take (length s - length w) s)"
      using "1.IH" [OF Some] .
    then have "prefix (TrimRight (take (length s - length w) s)) s"
      using take_is_prefix prefix_order.trans by blast
    then show ?thesis
      using Some by (subst TrimRight.simps) simp
  qed
qed

lemma leadingSpace_prefix:
  assumes "leadingSpace s = None" and "prefix t s"
  shows "leadingSpace t = None"
  using assms unfolding leadingSpace_def find_None_iff
  by (meson prefix_order.trans)

lemma trimmed_TrimSpace: "trimmed (TrimSpace s)"
  unfolding trimmed_def TrimSpace_def
  using TrimRight_trailing leadingSpace_prefix [OF TrimLeft_leading TrimRight_prefix]
  by simp

text \<open>
  Claim C8, as stated, fails on \<open>part_000\<close> (and \<open>part_002\<close>, the same code): these
  versions never call \<open>TrimSpace\<close>, and a row with blanks around the client and the street
  is accepted with the blanks kept.
\<close>

theorem untrimmed_p000_counterexample:
  "processCSV_p000 declib (serve texas_p000) 2025 [Row expected_main, Row spaced_row]
     = Inr [\<lparr> Client = '' John '', Charge = 100, Street = ''123 Main St '', City = ''Austin'',
              State = ''TX'', Zip = ''78701'', CityTax = 0, CountyTax = 0,
              StateTax = 25 / 4 \<rparr>] \<and>
   \<not> trimmed '' John '' \<and> \<not> trimmed ''123 Main St ''"
  by code_simp

text \<open>
  Claim C8, amended. In \<open>main.go\<close> and \<open>part_005\<close> (and \<open>part_001\<close>, \<open>part_004\<close>, which trim
  in the same way) every field of a row is replaced by its \<open>TrimSpace\<close> before anything
  else: the string fields of the record are the trimmed fields and carry no leading or
  trailing white space, the charge is what \<open>ParseFloat\<close> returns on the trimmed charge
  field, and the date checks ran on the trimmed client and date.
\<close>

theorem trimmed_fields:
  assumes "length row = 6" and "length row' = 7"
  shows "(processRow_main lib svc now row = Inr rec \<longrightarrow>
            Client rec = TrimSpace (row ! 0) \<and> Street rec = TrimSpace (row ! 2) \<and>
            City rec = TrimSpace (row ! 3) \<and> State rec = TrimSpace (row ! 4) \<and>
            Zip rec = TrimSpace (row ! 5) \<and>
            ParseFloat lib (TrimSpace (row ! 1)) = Some (Charge rec) \<and>
            trimmed (Client rec) \<and> trimmed (Street rec) \<and> trimmed (City rec) \<and>
            trimmed (State rec) \<and> trimmed (Zip rec)) \<and>
         (processRow_p005 lib rng svc' row' = Inr rec' \<longrightarrow>
            Client rec' = TrimSpace (row' ! 0) \<and> Date rec' = TrimSpace (row' ! 1) \<and>
            Street rec' = TrimSpace (row' ! 3) \<and> City rec' = TrimSpace (row' ! 4) \<and>
            State rec' = TrimSpace (row' ! 5) \<and> Zip rec' = TrimSpace (row' ! 6) \<and>
            ParseFloat lib (TrimSpace (row' ! 2)) = Some (Charge rec') \<and>
            \<not> isl (parseDate (TrimSpace (row' ! 0)) (TrimSpace (row' ! 1))) \<and>
            trimmed (Client rec') \<and> trimmed (Date rec') \<and> trimmed (Street rec') \<and>
            trimmed (City rec') \<and> trimmed (State rec') \<and> trimmed (Zip rec'))"
proof -
  have r: "map TrimSpace row ! i = TrimSpace (row ! i)" if "i < 6" for i
    using that assms(1) by simp
  have r': "map TrimSpace row' ! i = TrimSpace (row' ! i)" if "i < 7" for i
    using that assms(2) by simp
  have m: "Client rec = TrimSpace (row ! 0) \<and> Street rec = TrimSpace (row ! 2) \<and>
            City rec = TrimSpace (row ! 3) \<and> State rec = TrimSpace (row ! 4) \<and>
            Zip rec = TrimSpace (row ! 5) \<and>
            ParseFloat lib (TrimSpace (row ! 1)) = Some (Charge rec)"
    if "processRow_main lib svc now row = Inr rec"
    using that
    by (auto simp: processRow_main_def Let_def r split: option.splits sum.splits prod.splits)
  have p: "Client rec' = TrimSpace (row' ! 0) \<and> Date rec' = TrimSpace (row' ! 1) \<and>
            Street rec' = TrimSpace (row' ! 3) \<and> City rec' = TrimSpace (row' ! 4) \<and>
            State rec' = TrimSpace (row' ! 5) \<and> Zip rec' = TrimSpace (row' ! 6) \<and>
            ParseFloat lib (TrimSpace (row' ! 2)) = Some (Charge rec') \<and>
            \<not> isl (parseDate (TrimSpace (row' ! 0)) (TrimSpace (row' ! 1)))"
    if "processRow_p005 lib rng svc' row' = Inr rec'"
    using that
    by (auto simp: processRow_p005_def Let_def r' split: option.splits sum.splits prod.splits)
  show ?thesis
    using m p trimmed_TrimSpace by metis
qed

theorem trimmed_fields_witness:
  "length spaced_row = 6 \<and> length spaced_dated_row = 7 \<and>
   processRow_main declib (serve austin) 2025 spaced_row
     = Inr \<lparr> Client = ''John'', Charge = 100, Street = ''123 Main St'', City = ''Austin'',
             State = ''TX'', Zip = ''78701'', CityTax = 2, CountyTax = 1 / 2,
             StateTax = 25 / 4 \<rparr> \<and>
   processRow_p005 declib rev (serve austin) spaced_dated_row
     = Inr \<lparr> Client = ''John'', Charge = 100, Street = ''123 Main St'', City = ''Austin'',
             State = ''TX'', Zip = ''78701'', Date = ''02/30/2025'',
             Taxes = [(''AUSTIN'', 2), (''TRAVIS'', 1 / 2), (''TEXAS'', 25 / 4)] \<rparr> \<and>
   trimmed ''John'' \<and> trimmed ''123 Main St'' \<and> trimmed ''02/30/2025'' \<and>
   ParseFloat declib (TrimSpace (spaced_dated_row ! 2)) = Some 100"
proof -
  define r1 :: "rat TaxRecord_main" where
    "r1 = \<lparr> Client = ''John'', Charge = 100, Street = ''123 Main St'',
               City = ''Austin'', State = ''TX'', Zip = ''78701'', CityTax = 2,
               CountyTax = 1 / 2, StateTax = 25 / 4 \<rparr>"
  define r2 :: "rat TaxRecord_p005" where
    "r2 = \<lparr> Client = ''John'', Charge = 100, Street = ''123 Main St'',
               City = ''Austin'', State = ''TX'', Zip = ''78701'', Date = ''02/30/2025'',
               Taxes = [(''AUSTIN'', 2), (''TRAVIS'', 1 / 2), (''TEXAS'', 25 / 4)] \<rparr>"
  have l: "length spaced_row = 6" "length spaced_dated_row = 7"
    by (simp_all add: spaced_row_def spaced_dated_row_def)
  have "processRow_main declib (serve austin) 2025 spaced_row
     = Inr \<lparr> Client = ''John'', Charge = 100, Street = ''123 Main St'', City = ''Austin'',
             State = ''TX'', Zip = ''78701'', CityTax = 2, CountyTax = 1 / 2,
             StateTax = 25 / 4 \<rparr>"
    by code_simp
  then have e1: "processRow_main declib (serve austin) 2025 spaced_row = Inr r1"
    by (simp add: r1_def)
  have "processRow_p005 declib rev (serve austin) spaced_dated_row
     = Inr \<lparr> Client = ''John'', Charge = 100, Street = ''123 Main St'', City = ''Austin'',
             State = ''TX'', Zip = ''78701'', Date = ''02/30/2025'',
             Taxes = [(''AUSTIN'', 2), (''TRAVIS'', 1 / 2), (''TEXAS'', 25 / 4)] \<rparr>"
    by code_simp
  then have e2: "processRow_p005 declib rev (serve austin) spaced_dated_row = Inr r2"
    by (simp add: r2_def)
  have t: "trimmed (Client r1) \<and> trimmed (Street r1) \<and> trimmed (Date r2) \<and>
           ParseFloat declib (TrimSpace (spaced_dated_row ! 2)) = Some (Charge r2)"
    using trimmed_fields [OF l, of declib "serve austin" 2025 r1 rev "serve austin" r2] e1 e2
    by blast
  show ?thesis
    using l e1 e2 t by (simp add: r1_def r2_def)
qed

section \<open>The charge field\<close>

text \<open>
  Claim C9, as stated, fails: the only check on the charge is that \<open>ParseFloat\<close> returns
  no error, and \<open>-5\<close> parses. The row is accepted with the charge \<open>-5\<close>, which float64
  holds exactly.
\<close>

theorem negative_charge_counterexample:
  "\<not> isl (processCSV_main declib (serve austin) 2025 [Row expected_main, Row bob_row]) \<and>
   map Charge (projr (processCSV_main declib (serve austin) 2025 [Row expected_main, Row bob_row]))
     = [- 5] \<and>
   (- 5 :: rat) < 0"
  by code_simp

text \<open>
  Claim C9, amended. The parser returns the charge error, with the client and the field,
  exactly when \<open>ParseFloat\<close> fails on the trimmed charge field (in \<open>part_005\<close>: and the
  date was accepted); every record it produces has the charge \<open>ParseFloat\<close> returned for
  that field. The sign of the charge is not checked.
\<close>

theorem charge_parse:
  assumes "length row = 6" and "length row' = 7"
  shows "(processRow_main lib svc now row
            = Inl (InvalidCharge (TrimSpace (row ! 0)) (TrimSpace (row ! 1)))
          \<longleftrightarrow> ParseFloat lib (TrimSpace (row ! 1)) = None) \<and>
         (processRow_main lib svc now row = Inr rec \<longrightarrow>
            ParseFloat lib (TrimSpace (row ! 1)) = Some (Charge rec)) \<and>
         (processRow_p005 lib rng svc' row'
            = Inl (InvalidCharge (TrimSpace (row' ! 0)) (TrimSpace (row' ! 2)))
          \<longleftrightarrow> \<not> isl (parseDate (TrimSpace (row' ! 0)) (TrimSpace (row' ! 1))) \<and>
              ParseFloat lib (TrimSpace (row' ! 2)) = None) \<and>
         (processRow_p005 lib rng svc' row' = Inr rec' \<longrightarrow>
            ParseFloat lib (TrimSpace (row' ! 2)) = Some (Charge rec'))"
proof -
  have r: "map TrimSpace row ! i = TrimSpace (row ! i)" if "i < 6" for i
    using that assms(1) by simp
  have r': "map TrimSpace row' ! i = TrimSpace (row' ! i)" if "i < 7" for i
    using that assms(2) by simp
  have a: "processRow_main lib svc now row
            = Inl (InvalidCharge (TrimSpace (row ! 0)) (TrimSpace (row ! 1)))
          \<longleftrightarrow> ParseFloat lib (TrimSpace (row ! 1)) = None"
    by (auto simp: processRow_main_def Let_def r split: option.splits sum.splits prod.splits)
  have b: "ParseFloat lib (TrimSpace (row ! 1)) = Some (Charge rec)"
    if "processRow_main lib svc now row = Inr rec"
    using that
    by (auto simp: processRow_main_def Let_def r split: option.splits sum.splits prod.splits)
  have c: "processRow_p005 lib rng svc' row'
            = Inl (InvalidCharge (TrimSpace (row' ! 0)) (TrimSpace (row' ! 2)))
          \<longleftrightarrow> \<not> isl (parseDate (TrimSpace (row' ! 0)) (TrimSpace (row' ! 1))) \<and>
              ParseFloat lib (TrimSpace (row' ! 2)) = None"
  proof (cases "parseDate (TrimSpace (row' ! 0)) (TrimSpace (row' ! 1))")
    case (Inl e)
    then have "processRow_p005 lib rng svc' row' = Inl e"
      by (simp add: processRow_p005_def Let_def r')
    moreover have "e \<noteq> InvalidCharge x y" for x y
      using parseDate_error [OF Inl] by (auto simp: is_date_error_def)
    ultimately show ?thesis
      using Inl by auto
  next
    case (Inr mdy)
    then show ?thesis
      by (auto simp: processRow_p005_def Let_def r'
          split: option.splits sum.splits prod.splits)
  qed
  have d: "ParseFloat lib (TrimSpace (row' ! 2)) = Some (Charge rec')"
    if "processRow_p005 lib rng svc' row' = Inr rec'"
    using that
    by (auto simp: processRow_p005_def Let_def r' split: option.splits sum.splits prod.splits)
  show ?thesis
    using a b c d by blast
qed

theorem charge_parse_witness:
  "length abc_row = 6 \<and> length john_row = 7 \<and>
   ParseFloat declib (TrimSpace (abc_row ! 1)) = None \<and>
   processRow_main declib (serve austin) 2025 abc_row = Inl (InvalidCharge ''Bob'' ''abc'') \<and>
   length bob_row = 6 \<and>
   \<not> isl (processRow_main declib (serve austin) 2025 bob_row) \<and>
   ParseFloat declib (TrimSpace (bob_row ! 1))
     = Some (Charge (projr (processRow_main declib (serve austin) 2025 bob_row))) \<and>
   Charge (projr (processRow_main declib (serve austin) 2025 bob_row)) = - 5"
proof -
  have l: "length abc_row = 6" "length john_row = 7" "length bob_row = 6"
    by (simp_all add: abc_row_def john_row_def bob_row_def)
  have n: "ParseFloat declib (TrimSpace (abc_row ! 1)) = None"
    by code_simp
  have c: "TrimSpace (abc_row ! 0) = ''Bob''" "TrimSpace (abc_row ! 1) = ''abc''"
    by code_simp+
  have a: "processRow_main declib (serve austin) 2025 abc_row = Inl (InvalidCharge ''Bob'' ''abc'')"
    using charge_parse [OF l(1,2), of declib "serve austin" 2025] n
    unfolding c by blast
  have b: "\<not> isl (processRow_main declib (serve austin) 2025 bob_row)"
    by code_simp
  then obtain rec where rec: "processRow_main declib (serve austin) 2025 bob_row = Inr rec"
    by (cases "processRow_main declib (serve austin) 2025 bob_row") auto
  have p: "ParseFloat declib (TrimSpace (bob_row ! 1)) = Some (Charge rec)"
    using charge_parse [OF l(3,2), of declib "serve austin" 2025 rec] rec by blast
  have v: "Charge (projr (processRow_main declib (serve austin) 2025 bob_row)) = - 5"
    by code_simp
  show ?thesis
    using l n a b p v by (simp add: rec)
qed

section \<open>Rate lookup\<close>














section \<open>Missing city or county rate\<close>












end
